theory Spec2Isabelle
  imports Main "HOL-Library.AList"
begin

section \<open>Values handled by the client\<close>

text \<open>
  The orchestrator \<^verbatim>\<open>ClientHandl\<close> is embedded function by function. JavaScript objects
  become records, \<^verbatim>\<open>Map\<close>s become association lists in insertion order
  (\<open>map_of\<close> is \<^verbatim>\<open>get\<close>, \<open>AList.update\<close> is \<^verbatim>\<open>set\<close>, \<open>AList.delete\<close> is \<^verbatim>\<open>delete\<close>),
  an optional field becomes an \<open>option\<close>, and a rejected promise becomes an error value.
  A leading underscore of a private method is dropped (\<^verbatim>\<open>_resolve\<close> is \<open>resolve\<close>);
  \<^verbatim>\<open>_request\<close> is \<open>request'\<close> next to the public \<open>request\<close>.
\<close>

text \<open>
  The declared type of an error is \<^verbatim>\<open>Error | Error[]\<close>: every value of it is truthy, so
  the tests \<^verbatim>\<open>if (error)\<close> of the source are tests for presence.
\<close>

datatype error = TypeError string | Error string | ErrorList "error list"

datatype json =
  JNull | JBool bool | JNumber int | JString string
  | JArray "json list" | JObject "(string \<times> json) list"

text \<open>The state of a promise held in a registry.\<close>

datatype 'a promise = Pending | Fulfilled 'a | Rejected error

text \<open>
  What an \<^verbatim>\<open>async\<close> method hands back: a value, a rejection, the promise with the given
  number of the pending registry (settled later by the request in flight), or nothing
  at all because it awaits a promise that nobody resolves.
\<close>

datatype 'a async = Resolves 'a | Rejects error | Awaits nat | Hangs

text \<open>\<^verbatim>\<open>CacheMetadata\<close> is a \<^verbatim>\<open>Map<string, Cacheability>\<close>; \<open>'c\<close> is the library's Cacheability.\<close>

type_synonym 'c CacheMetadata = "(string \<times> 'c) list"

type_synonym Headers = "(string \<times> string) list"

datatype ValidOperation = OpQuery | OpMutation | OpSubscription

record OperationDefinitionNode =
  od_operation :: string
  od_name :: "string option"

datatype DefinitionNode =
  OperationDefinition OperationDefinitionNode
  | FragmentDefinition string

type_synonym DocumentNode = "DefinitionNode list"

record RequestOptions =
  awaitDataCached :: bool
  fragments :: "string list option"
  operationName :: "string option"
  tag :: "json option"
  variables :: "json option"

record RequestContext =
  handlID :: string
  operation :: string
  ctx_operationName :: string

record 'c ResolveResult =
  rr_cacheMetadata :: "'c CacheMetadata option"
  rr_cachePromise :: "unit promise option"
  rr_data :: "json option"
  rr_queryHash :: "string option"

record 'c ResolveArgs =
  ra_cacheMetadata :: "'c CacheMetadata option"
  ra_cachePromise :: "unit promise option"
  ra_data :: "json option"
  ra_error :: "error option"
  ra_operation :: ValidOperation
  ra_queryHash :: "string option"
  ra_resolvePending :: "bool option"

record 'd FetchResult =
  fr_cacheMetadata :: "'d option"
  fr_data :: "json option"
  fr_headers :: Headers

record 'd MaybeRawFetchData =
  raw_cacheMetadata :: "'d option"
  raw_data :: "json option"
  raw_errors :: "error option"
  raw_headers :: Headers

record 'c AnalyzeResult =
  cachedData :: "json option"
  ar_cacheMetadata :: "'c CacheMetadata option"
  filtered :: "bool option"
  updatedAST :: "DocumentNode option"
  updatedQuery :: "string option"

record UpdateRequestResult =
  upd_ast :: DocumentNode
  upd_query :: string

record DefaultCacheControls =
  dcc_mutation :: string
  dcc_query :: string
  dcc_subscription :: string

section \<open>The cache manager's state\<close>

text \<open>
  A response record is \<^verbatim>\<open>{ cacheMetadata, data }\<close> with the metadata dehydrated (\<open>'d\<close>).
  The store keeps it with the Cacheability it answers \<^verbatim>\<open>has\<close> with, and the tag.
\<close>

record 'd ResponseRecord =
  rec_cacheMetadata :: 'd
  rec_data :: json

record ('c, 'd) StoreEntry =
  se_cacheability :: 'c
  se_value :: "'d ResponseRecord"
  se_tag :: "json option"

datatype StoreOp = StoreHas | StoreGet | StoreSet | StoreSize

text \<open>Calls that leave the orchestrator, in the order they are made.\<close>

datatype event =
  ExecutorResolve "string option"
  | SubscriberResolve string
  | ResponsesHas string
  | ResponsesGet string
  | ResponsesSet string string
  | CacheAnalyze string
  | CacheResolveQuery string
  | CacheResolveMutation
  | CacheResolveSubscription
  | AwaitCachePromise

text \<open>
  \<open>active\<close> and \<open>pending\<close> are \<^verbatim>\<open>this._cache.requests.active\<close> and \<^verbatim>\<open>.pending\<close>. An entry
  of a pending list is the pair \<^verbatim>\<open>{ reject, resolve }\<close> of one promise; it is kept as the
  number of that promise in \<open>promises\<close>.
\<close>

record ('c, 'd) CacheManager =
  responses :: "(string \<times> ('c, 'd) StoreEntry) list"
  dataEntities :: "(string \<times> json) list"
  queryPaths :: "(string \<times> json) list"
  active :: "(string \<times> string) list"
  pending :: "(string \<times> nat list) list"
  promises :: "(nat \<times> 'c ResolveResult promise) list"
  trace :: "event list"

text \<open>The number of calls of the external executor made so far.\<close>

fun isExecutorCall :: "event \<Rightarrow> bool" where
  "isExecutorCall (ExecutorResolve q) = True"
| "isExecutorCall ev = False"

definition executorCalls :: "('c, 'd) CacheManager \<Rightarrow> nat" where
  "executorCalls s = length (filter isExecutorCall (trace s))"

definition emit :: "event \<Rightarrow> ('c, 'd) CacheManager \<Rightarrow> ('c, 'd) CacheManager" where
  "emit e s = s\<lparr>trace := trace s @ [e]\<rparr>"

text \<open>Calling \<^verbatim>\<open>resolve\<close> or \<^verbatim>\<open>reject\<close> of a promise settles it once; later calls do nothing.\<close>

definition settle ::
  "nat \<Rightarrow> 'c ResolveResult promise \<Rightarrow> ('c, 'd) CacheManager \<Rightarrow> ('c, 'd) CacheManager" where
  "settle p v s =
     (case map_of (promises s) p of
        Some Pending \<Rightarrow> s\<lparr>promises := AList.update p v (promises s)\<rparr>
      | _ \<Rightarrow> s)"

text \<open>\<^verbatim>\<open>new Promise(...)\<close>: a fresh pending promise, numbered by its position.\<close>

definition newPromise :: "('c, 'd) CacheManager \<Rightarrow> nat \<times> ('c, 'd) CacheManager" where
  "newPromise s = (length (promises s), s\<lparr>promises := promises s @ [(length (promises s), Pending)]\<rparr>)"

section \<open>The client object and its collaborators\<close>

datatype Mode = ModeDefault | ModeServer

datatype GraphQLSchema = ClientSchema json | SchemaInstance string

datatype Executor =
  FetchManager "bool option" "nat option" "Headers option" string
  | GraphQLExecute GraphQLSchema

datatype Subscriber =
  SocketManager string "json option"
  | GraphQLSubscribe GraphQLSchema

record Subscriptions =
  sub_address :: string
  sub_opts :: "json option"

text \<open>
  \<^verbatim>\<open>ClientArgs\<close>. The introspection result and the store options are JSON values, tested
  by \<^verbatim>\<open>isPlainObject\<close>. Any other field that is present has its declared type, so the
  guards \<^verbatim>\<open>isString(url)\<close>, \<^verbatim>\<open>schema instanceof GraphQLSchema\<close> and the like are tests for
  presence. The resolver functions handed on to the execute and subscribe proxies are
  left out.
\<close>

record ClientArgs =
  arg_batch :: "bool option"
  arg_cachemapOptions :: "json option"
  arg_defaultCacheControls :: "(string \<times> string) list option"
  arg_fetchTimeout :: "nat option"
  arg_headers :: "Headers option"
  arg_introspection :: "json option"
  arg_mode :: "string option"
  arg_newInstance :: bool
  arg_resourceKey :: "string option"
  arg_schema :: "string option"
  arg_subscriptions :: "Subscriptions option"
  arg_typeCacheControls :: "(string \<times> string) list option"
  arg_url :: "string option"

text \<open>The fields of an instance; \<open>objectId\<close> is the identity of the object.\<close>

record ClientHandl =
  objectId :: nat
  cachemapOptions :: json
  defaultCacheControls :: DefaultCacheControls
  mode :: Mode
  requestExecutor :: Executor
  requestSubscriber :: "Subscriber option"
  resourceKey :: string
  schema :: GraphQLSchema
  subscriptionsEnabled :: bool
  typeCacheControls :: "(string \<times> string) list option"

text \<open>What a subscriber hands back: an async iterable, or one execution result.\<close>

record 'd ExecutionResult =
  ex_cacheMetadata :: "'d option"
  ex_data :: "json option"
  ex_errors :: "error list option"

datatype 'd SubscribeResult = AsyncIterable | Execution "'d ExecutionResult"

text \<open>A message handed to the subscription callback need not be a plain object.\<close>

datatype 'd Message = NotPlainObject | PlainObject "'d ExecutionResult"

text \<open>What a resolve of the cache manager computes: the shaped result and the records to write.\<close>

record 'c TierWrites =
  tw_cacheMetadata :: "'c CacheMetadata"
  tw_data :: json
  tw_dataEntities :: "(string \<times> json) list"
  tw_queryPaths :: "(string \<times> json) list"
  tw_cacheResolve :: bool

text \<open>
  Everything the orchestrator calls and the sources do not contain is a parameter: the
  libraries (cacheability, graphql, lodash, the stores), the helpers of the repository
  (hashing, metadata conversion, parsing) and the transport. \<open>storeFault\<close> says which
  calls of the responses store throw, and \<open>storeAfterFault\<close> what the store holds after a
  \<^verbatim>\<open>set\<close> that threw. \<open>buildClientSchema\<close> is graphql's, which throws on an introspection
  result it cannot use. The analysis and the normalisation of a resolve
  are taken to return: the spec names no failure of theirs, and a store error inside
  them degrades to a miss or is logged. \<open>analyze\<close> reads the state it is given and
  \<open>normalise\<close> computes what a resolve writes; what they answer is not constrained.
\<close>

record ('c, 'd) Collaborators =
  hashRequest :: "string \<Rightarrow> string"
  parseCacheControl :: "string \<Rightarrow> 'c"
  printCacheControl :: "'c \<Rightarrow> string"
  isValid :: "'c option \<Rightarrow> bool"
  rehydrateCacheMetadata :: "'d \<Rightarrow> 'c CacheMetadata"
  dehydrateCacheMetadata :: "'c CacheMetadata \<Rightarrow> 'd"
  createCacheMetadata :: "'d option \<Rightarrow> Headers option \<Rightarrow> 'c CacheMetadata"
  storeFault :: "StoreOp \<Rightarrow> string \<Rightarrow> error option"
  storeAfterFault ::
    "string \<Rightarrow> 'd ResponseRecord \<Rightarrow> (string \<times> ('c, 'd) StoreEntry) list
       \<Rightarrow> (string \<times> ('c, 'd) StoreEntry) list"
  executorResolve ::
    "string option \<Rightarrow> DocumentNode option \<Rightarrow> RequestOptions \<Rightarrow> error + 'd MaybeRawFetchData"
  subscriberResolve ::
    "string \<Rightarrow> string \<Rightarrow> DocumentNode \<Rightarrow> RequestOptions \<Rightarrow> error + 'd SubscribeResult"
  analyze ::
    "('c, 'd) CacheManager \<Rightarrow> string \<Rightarrow> DocumentNode \<Rightarrow> RequestContext \<Rightarrow> 'c AnalyzeResult"
  normalise ::
    "ValidOperation \<Rightarrow> ('c, 'd) CacheManager \<Rightarrow> DocumentNode option \<Rightarrow> json option
       \<Rightarrow> 'c CacheMetadata \<Rightarrow> RequestContext \<Rightarrow> 'c TierWrites"
  updateRequest :: "string \<Rightarrow> RequestOptions \<Rightarrow> RequestContext \<Rightarrow> error + UpdateRequestResult"
  validate :: "GraphQLSchema \<Rightarrow> DocumentNode \<Rightarrow> error list"
  merge :: "json \<Rightarrow> json \<Rightarrow> json"
  webEnv :: bool
  socketsSupported :: bool
  cacheManagerCreate :: "ClientHandl \<Rightarrow> error option"
  buildClientSchema :: "json \<Rightarrow> error + GraphQLSchema"

section \<open>Settling a request\<close>

text \<open>A string is truthy when it is not empty.\<close>

definition truthy :: "string option \<Rightarrow> bool" where
  "truthy h = (case h of None \<Rightarrow> False | Some x \<Rightarrow> x \<noteq> [])"

definition defaultCacheControl :: "DefaultCacheControls \<Rightarrow> ValidOperation \<Rightarrow> string" where
  "defaultCacheControl d op =
     (case op of OpQuery \<Rightarrow> dcc_query d | OpMutation \<Rightarrow> dcc_mutation d
      | OpSubscription \<Rightarrow> dcc_subscription d)"

definition setPendingRequest ::
  "string \<Rightarrow> nat \<Rightarrow> ('c, 'd) CacheManager \<Rightarrow> ('c, 'd) CacheManager" where
  "setPendingRequest queryHash p s =
     (let pending0 = (case map_of (pending s) queryHash of None \<Rightarrow> [] | Some ps \<Rightarrow> ps)
      in s\<lparr>pending := AList.update queryHash (pending0 @ [p]) (pending s)\<rparr>)"

definition resolvePendingRequests ::
  "string \<Rightarrow> 'c CacheMetadata option \<Rightarrow> json option \<Rightarrow> error option
     \<Rightarrow> ('c, 'd) CacheManager \<Rightarrow> ('c, 'd) CacheManager" where
  "resolvePendingRequests queryHash cm dat err s =
     (case map_of (pending s) queryHash of
        None \<Rightarrow> s
      | Some pendingRequests \<Rightarrow>
          (let s1 = fold (\<lambda>p.
                 case err of
                   Some e \<Rightarrow> settle p (Rejected e)
                 | None \<Rightarrow> settle p (Fulfilled \<lparr>rr_cacheMetadata = cm, rr_cachePromise = None,
                                 rr_data = dat, rr_queryHash = Some queryHash\<rparr>))
                 pendingRequests s
           in s1\<lparr>pending := AList.delete queryHash (pending s1)\<rparr>))"

definition resolve ::
  "('c, 'd) Collaborators \<Rightarrow> ClientHandl \<Rightarrow> 'c ResolveArgs \<Rightarrow> ('c, 'd) CacheManager
     \<Rightarrow> 'c ResolveResult async \<times> ('c, 'd) CacheManager" where
  "resolve env this args s =
     (let resolvePending = (case ra_resolvePending args of None \<Rightarrow> True | Some b \<Rightarrow> b);
          cacheMetadata =
            (case ra_cacheMetadata args of
               None \<Rightarrow> None
             | Some cm \<Rightarrow>
                 if map_of cm ''query'' = None
                 then Some (AList.update ''query''
                        (parseCacheControl env
                           (defaultCacheControl (defaultCacheControls this) (ra_operation args))) cm)
                 else Some cm);
          s1 = (if resolvePending \<and> truthy (ra_queryHash args)
                then (let s0 = resolvePendingRequests (the (ra_queryHash args)) cacheMetadata
                                 (ra_data args) (ra_error args) s
                      in s0\<lparr>active := AList.delete (the (ra_queryHash args)) (active s0)\<rparr>)
                else s)
      in case ra_error args of
           Some e \<Rightarrow> (Rejects e, s1)
         | None \<Rightarrow>
             (Resolves \<lparr>rr_cacheMetadata = cacheMetadata,
                        rr_cachePromise = ra_cachePromise args,
                        rr_data = ra_data args,
                        rr_queryHash = (if truthy (ra_queryHash args) then ra_queryHash args else None)\<rparr>,
              s1))"

section \<open>The responses store and the resolves of the cache manager\<close>

text \<open>
  Modelled from the spec: the responses store (the sources hold no store). It is a
  mapping with \<^verbatim>\<open>has\<close>, \<^verbatim>\<open>get\<close>, \<^verbatim>\<open>set\<close> and \<^verbatim>\<open>size\<close>; \<^verbatim>\<open>get\<close> after \<^verbatim>\<open>set\<close> returns the written
  value, and \<^verbatim>\<open>has\<close> answers with the Cacheability of the entry. Nothing is said of
  what a \<^verbatim>\<open>set\<close> that throws leaves behind: it is the collaborator \<open>storeAfterFault\<close>.
\<close>

definition responsesSet ::
  "('c, 'd) Collaborators \<Rightarrow> string \<Rightarrow> 'd ResponseRecord \<Rightarrow> string \<Rightarrow> json option
     \<Rightarrow> ('c, 'd) CacheManager \<Rightarrow> error option \<times> ('c, 'd) CacheManager" where
  "responsesSet env key val cacheControl tg s =
     (case storeFault env StoreSet key of
        Some e \<Rightarrow>
          (Some e,
           (emit (ResponsesSet key cacheControl) s)
             \<lparr>responses := storeAfterFault env key val (responses s)\<rparr>)
      | None \<Rightarrow>
          (None,
           (emit (ResponsesSet key cacheControl) s)
             \<lparr>responses := AList.update key
                 \<lparr>se_cacheability = parseCacheControl env cacheControl, se_value = val, se_tag = tg\<rparr>
                 (responses s)\<rparr>))"

text \<open>
  Modelled from the spec: \<^verbatim>\<open>CacheManager.resolveMutation\<close> and \<^verbatim>\<open>resolveSubscription\<close>
  (the cache manager is not among the sources). A mutation updates data-entities and
  query-paths and does not write to the response cache; a subscription message is
  treated like a mutation. What is written is what the collaborator \<open>normalise\<close>
  computes; \<open>writeTiers\<close> puts it into the two stores, a later record for a key
  replacing an earlier one.
\<close>

definition writeTiers :: "'c TierWrites \<Rightarrow> ('c, 'd) CacheManager \<Rightarrow> ('c, 'd) CacheManager" where
  "writeTiers w s =
     s\<lparr>dataEntities := fold (\<lambda>(k, v). AList.update k v) (tw_dataEntities w) (dataEntities s),
       queryPaths := fold (\<lambda>(k, v). AList.update k v) (tw_queryPaths w) (queryPaths s)\<rparr>"

definition resolveMutation ::
  "('c, 'd) Collaborators \<Rightarrow> DocumentNode \<Rightarrow> json option \<Rightarrow> 'c CacheMetadata \<Rightarrow> json option
     \<Rightarrow> RequestContext \<Rightarrow> ('c, 'd) CacheManager \<Rightarrow> 'c TierWrites \<times> ('c, 'd) CacheManager" where
  "resolveMutation env ast dat cm tg context s =
     (let w = normalise env OpMutation s (Some ast) dat cm context
      in (w, emit CacheResolveMutation (writeTiers w s)))"

definition resolveSubscription ::
  "('c, 'd) Collaborators \<Rightarrow> DocumentNode \<Rightarrow> json option \<Rightarrow> 'c CacheMetadata \<Rightarrow> json option
     \<Rightarrow> RequestContext \<Rightarrow> ('c, 'd) CacheManager \<Rightarrow> 'c TierWrites \<times> ('c, 'd) CacheManager" where
  "resolveSubscription env ast dat cm tg context s =
     (let w = normalise env OpSubscription s (Some ast) dat cm context
      in (w, emit CacheResolveSubscription (writeTiers w s)))"

text \<open>
  Modelled from the spec: \<^verbatim>\<open>CacheManager.resolveQuery\<close>. After the entity and query-path
  writes it writes the shaped response and its dehydrated metadata into the responses
  store under the fingerprint, with the top-level cache control; a failing store write
  does not fail the resolve.
\<close>

definition resolveQuery ::
  "('c, 'd) Collaborators \<Rightarrow> DefaultCacheControls \<Rightarrow> string option \<Rightarrow> DocumentNode option
     \<Rightarrow> string \<Rightarrow> json option \<Rightarrow> 'c CacheMetadata \<Rightarrow> bool option \<Rightarrow> json option
     \<Rightarrow> RequestContext \<Rightarrow> ('c, 'd) CacheManager \<Rightarrow> 'c TierWrites \<times> ('c, 'd) CacheManager" where
  "resolveQuery env dcc qry ast queryHash dat cm filt tg context s =
     (let w = normalise env OpQuery s ast dat cm context;
          cacheControl =
            (case map_of (tw_cacheMetadata w) ''query'' of
               Some c \<Rightarrow> printCacheControl env c
             | None \<Rightarrow> dcc_query dcc);
          s1 = emit (CacheResolveQuery queryHash) (writeTiers w s)
      in (w, snd (responsesSet env queryHash
                    \<lparr>rec_cacheMetadata = dehydrateCacheMetadata env (tw_cacheMetadata w),
                     rec_data = tw_data w\<rparr> cacheControl tg s1)))"

section \<open>Reading the response cache\<close>

definition getResponseCacheEntry ::
  "('c, 'd) Collaborators \<Rightarrow> string \<Rightarrow> ('c, 'd) CacheManager
     \<Rightarrow> ('c CacheMetadata \<times> json) option async" where
  "getResponseCacheEntry env key s =
     (case storeFault env StoreGet key of
        Some e \<Rightarrow> Rejects e
      | None \<Rightarrow>
          (case map_of (responses s) key of
             None \<Rightarrow> Resolves None
           | Some entry \<Rightarrow>
               Resolves (Some (createCacheMetadata env (Some (rec_cacheMetadata (se_value entry))) None,
                               rec_data (se_value entry)))))"

definition getResponseCacheSize ::
  "('c, 'd) Collaborators \<Rightarrow> ('c, 'd) CacheManager \<Rightarrow> nat async" where
  "getResponseCacheSize env s =
     (case storeFault env StoreSize [] of
        Some e \<Rightarrow> Rejects e
      | None \<Rightarrow> Resolves (length (responses s)))"

definition checkResponseCache ::
  "('c, 'd) Collaborators \<Rightarrow> string \<Rightarrow> RequestContext \<Rightarrow> ('c, 'd) CacheManager
     \<Rightarrow> 'c ResolveResult option \<times> ('c, 'd) CacheManager" where
  "checkResponseCache env queryHash context s =
     (let s1 = emit (ResponsesHas queryHash) s
      in case storeFault env StoreHas queryHash of
           Some e \<Rightarrow> (None, s1)
         | None \<Rightarrow>
             (let cacheability = map_option se_cacheability (map_of (responses s1) queryHash)
              in if \<not> isValid env cacheability then (None, s1)
                 else (let s2 = emit (ResponsesGet queryHash) s1
                       in case storeFault env StoreGet queryHash of
                            Some e \<Rightarrow> (None, s2)
                          | None \<Rightarrow>
                              (case map_of (responses s2) queryHash of
                                 None \<Rightarrow> (None, s2)
                               | Some res \<Rightarrow>
                                   (Some \<lparr>rr_cacheMetadata =
                                            Some (rehydrateCacheMetadata env
                                                    (rec_cacheMetadata (se_value res))),
                                          rr_cachePromise = None,
                                          rr_data = Some (rec_data (se_value res)),
                                          rr_queryHash = None\<rparr>, s2)))))"

section \<open>Fetching\<close>

definition fetch ::
  "('c, 'd) Collaborators \<Rightarrow> string option \<Rightarrow> DocumentNode option \<Rightarrow> RequestOptions
     \<Rightarrow> RequestContext \<Rightarrow> ('c, 'd) CacheManager
     \<Rightarrow> (error + 'd FetchResult) \<times> ('c, 'd) CacheManager" where
  "fetch env req ast opts context s =
     (let s1 = emit (ExecutorResolve req) s
      in case executorResolve env req ast opts of
           Inl e \<Rightarrow> (Inl e, s1)
         | Inr result \<Rightarrow>
             (case raw_errors result of
                Some errs \<Rightarrow> (Inl errs, s1)
              | None \<Rightarrow>
                  (Inr \<lparr>fr_cacheMetadata = raw_cacheMetadata result,
                        fr_data = raw_data result,
                        fr_headers = raw_headers result\<rparr>, s1)))"

text \<open>The promise of a deferred whose \<^verbatim>\<open>resolve\<close> was handed to the cache manager.\<close>

definition deferredPromise :: "bool \<Rightarrow> unit promise" where
  "deferredPromise resolved = (if resolved then Fulfilled () else Pending)"

section \<open>Mutations and queries\<close>

definition mutation ::
  "('c, 'd) Collaborators \<Rightarrow> ClientHandl \<Rightarrow> string \<Rightarrow> DocumentNode \<Rightarrow> RequestOptions
     \<Rightarrow> RequestContext \<Rightarrow> ('c, 'd) CacheManager
     \<Rightarrow> 'c ResolveResult async \<times> ('c, 'd) CacheManager" where
  "mutation env this mut ast opts context s =
     (case fetch env (Some mut) (Some ast) opts context s of
        (Inl e, s1) \<Rightarrow>
          resolve env this
            \<lparr>ra_cacheMetadata = None, ra_cachePromise = None, ra_data = None, ra_error = Some e,
             ra_operation = OpMutation, ra_queryHash = None, ra_resolvePending = None\<rparr> s1
      | (Inr fetchResult, s1) \<Rightarrow>
          (let cacheMetadata = createCacheMetadata env (fr_cacheMetadata fetchResult)
                                 (Some (fr_headers fetchResult));
               (resolveResult, s2) =
                 resolveMutation env ast (fr_data fetchResult) cacheMetadata (tag opts) context s1
           in resolve env this
                \<lparr>ra_cacheMetadata = Some (tw_cacheMetadata resolveResult),
                 ra_cachePromise = Some (deferredPromise (tw_cacheResolve resolveResult)),
                 ra_data = Some (tw_data resolveResult), ra_error = None,
                 ra_operation = OpMutation, ra_queryHash = None, ra_resolvePending = None\<rparr> s2))"

text \<open>
  \<^verbatim>\<open>_query\<close> suspends while the executor works, and other requests run meanwhile. It is
  cut there: \<open>queryBegin\<close> runs up to the call of \<^verbatim>\<open>_fetch\<close>, \<open>queryFetched\<close> is the rest,
  given what \<^verbatim>\<open>_fetch\<close> returned, and \<open>query\<close> is the two with nothing in between.
  When the analysis returns data and metadata, the response record is written inside
  \<^verbatim>\<open>try { ... } catch (error) { } finally { deferred.resolve(); }\<close>: the deferred is resolved
  whether or not the store threw.
\<close>

text \<open>
  The cache control the response record is written with:
  \<^verbatim>\<open>queryCacheability && queryCacheability.printCacheControl() || defaultCacheControl\<close>.
  The empty string is falsy, so an entry that prints nothing gives the default too.
\<close>

definition queryCacheControl ::
  "('c, 'd) Collaborators \<Rightarrow> ClientHandl \<Rightarrow> 'c CacheMetadata \<Rightarrow> string" where
  "queryCacheControl env this cacheMetadata =
     (let defaultCacheControl = dcc_query (defaultCacheControls this)
      in case map_of cacheMetadata ''query'' of
           None \<Rightarrow> defaultCacheControl
         | Some queryCacheability \<Rightarrow>
             if printCacheControl env queryCacheability \<noteq> []
             then printCacheControl env queryCacheability
             else defaultCacheControl)"

datatype 'c QueryStage =
  Done "'c ResolveResult async"
  | Fetching string "string option" "DocumentNode option" "bool option"

definition queryBegin ::
  "('c, 'd) Collaborators \<Rightarrow> ClientHandl \<Rightarrow> string \<Rightarrow> DocumentNode \<Rightarrow> RequestOptions
     \<Rightarrow> RequestContext \<Rightarrow> ('c, 'd) CacheManager \<Rightarrow> 'c QueryStage \<times> ('c, 'd) CacheManager" where
  "queryBegin env this qry ast opts context s =
     (let queryHash = hashRequest env qry;
          (cachedResponse, s1) = checkResponseCache env queryHash context s
      in case cachedResponse of
           Some cached \<Rightarrow>
             (let (r, s2) = resolve env this
                    \<lparr>ra_cacheMetadata = rr_cacheMetadata cached, ra_cachePromise = None,
                     ra_data = rr_data cached, ra_error = None, ra_operation = OpQuery,
                     ra_queryHash = Some queryHash, ra_resolvePending = Some False\<rparr> s1
              in (Done r, s2))
         | None \<Rightarrow>
             if map_of (active s1) queryHash \<noteq> None
             then (let (p, s2) = newPromise s1
                   in (Done (Awaits p), setPendingRequest queryHash p s2))
             else
               (let s2 = s1\<lparr>active := AList.update queryHash qry (active s1)\<rparr>;
                    analyzeResult = analyze env s2 queryHash ast context;
                    s3 = emit (CacheAnalyze queryHash) s2
                in case (cachedData analyzeResult, ar_cacheMetadata analyzeResult) of
                     (Some cd, Some cacheMetadata) \<Rightarrow>
                       (let cacheControl = queryCacheControl env this cacheMetadata;
                            (thrown, s4) = responsesSet env queryHash
                                   \<lparr>rec_cacheMetadata = dehydrateCacheMetadata env cacheMetadata,
                                    rec_data = cd\<rparr> cacheControl (tag opts) s3;
                            deferred = (case thrown of
                                          None \<Rightarrow> Fulfilled ()
                                        | Some error \<Rightarrow> Fulfilled ());
                            (r, s5) = resolve env this
                              \<lparr>ra_cacheMetadata = Some cacheMetadata,
                               ra_cachePromise = Some deferred,
                               ra_data = Some cd, ra_error = None, ra_operation = OpQuery,
                               ra_queryHash = Some queryHash, ra_resolvePending = None\<rparr> s4
                        in (Done r, s5))
                   | _ \<Rightarrow>
                       (Fetching queryHash (updatedQuery analyzeResult) (updatedAST analyzeResult)
                          (filtered analyzeResult), s3)))"

definition queryFetched ::
  "('c, 'd) Collaborators \<Rightarrow> ClientHandl \<Rightarrow> string \<Rightarrow> string option \<Rightarrow> DocumentNode option
     \<Rightarrow> bool option \<Rightarrow> RequestOptions \<Rightarrow> RequestContext \<Rightarrow> error + 'd FetchResult
     \<Rightarrow> ('c, 'd) CacheManager \<Rightarrow> 'c ResolveResult async \<times> ('c, 'd) CacheManager" where
  "queryFetched env this queryHash updQuery updAST filt opts context fetched s =
     (case fetched of
        Inl e \<Rightarrow>
          resolve env this
            \<lparr>ra_cacheMetadata = None, ra_cachePromise = None, ra_data = None, ra_error = Some e,
             ra_operation = OpQuery, ra_queryHash = Some queryHash, ra_resolvePending = None\<rparr> s
      | Inr fetchResult \<Rightarrow>
          (let cacheMetadata = createCacheMetadata env (fr_cacheMetadata fetchResult)
                                 (Some (fr_headers fetchResult));
               (resolveResult, s1) =
                 resolveQuery env (defaultCacheControls this) updQuery updAST queryHash
                   (fr_data fetchResult) cacheMetadata filt (tag opts) context s
           in resolve env this
                \<lparr>ra_cacheMetadata = Some (tw_cacheMetadata resolveResult),
                 ra_cachePromise = Some (deferredPromise (tw_cacheResolve resolveResult)),
                 ra_data = Some (tw_data resolveResult), ra_error = None,
                 ra_operation = OpQuery, ra_queryHash = Some queryHash,
                 ra_resolvePending = None\<rparr> s1))"

definition query ::
  "('c, 'd) Collaborators \<Rightarrow> ClientHandl \<Rightarrow> string \<Rightarrow> DocumentNode \<Rightarrow> RequestOptions
     \<Rightarrow> RequestContext \<Rightarrow> ('c, 'd) CacheManager
     \<Rightarrow> 'c ResolveResult async \<times> ('c, 'd) CacheManager" where
  "query env this qry ast opts context s =
     (case queryBegin env this qry ast opts context s of
        (Done r, s1) \<Rightarrow> (r, s1)
      | (Fetching queryHash updQuery updAST filt, s1) \<Rightarrow>
          (let (fetched, s2) = fetch env updQuery updAST opts context s1
           in queryFetched env this queryHash updQuery updAST filt opts context fetched s2))"

section \<open>Subscriptions\<close>

datatype 'c RequestResult = Result "'c ResolveResult" | AsyncIterator

fun liftResult :: "'c ResolveResult async \<Rightarrow> 'c RequestResult async" where
  "liftResult (Resolves r) = Resolves (Result r)"
| "liftResult (Rejects e) = Rejects e"
| "liftResult (Awaits p) = Awaits p"
| "liftResult Hangs = Hangs"

definition resolveSubscriber ::
  "('c, 'd) Collaborators \<Rightarrow> ClientHandl \<Rightarrow> DocumentNode \<Rightarrow> 'd Message \<Rightarrow> RequestOptions
     \<Rightarrow> RequestContext \<Rightarrow> ('c, 'd) CacheManager
     \<Rightarrow> 'c ResolveResult async \<times> ('c, 'd) CacheManager" where
  "resolveSubscriber env this ast msg opts context s =
     (case msg of
        NotPlainObject \<Rightarrow>
          resolve env this
            \<lparr>ra_cacheMetadata = None, ra_cachePromise = None, ra_data = None,
             ra_error = Some (TypeError ''Subscriber expected the result to be a JSON object.''),
             ra_operation = OpSubscription, ra_queryHash = None, ra_resolvePending = None\<rparr> s
      | PlainObject result \<Rightarrow>
          (case ex_errors result of
             Some (e # es) \<Rightarrow>
               resolve env this
                 \<lparr>ra_cacheMetadata = None, ra_cachePromise = None, ra_data = None,
                  ra_error = Some (ErrorList (e # es)),
                  ra_operation = OpSubscription, ra_queryHash = None, ra_resolvePending = None\<rparr> s
           | _ \<Rightarrow>
               (let (resolveResult, s1) =
                      resolveSubscription env ast (ex_data result)
                        (createCacheMetadata env (ex_cacheMetadata result) None) (tag opts) context s
                in if awaitDataCached opts \<and> \<not> tw_cacheResolve resolveResult
                   then (Hangs, emit AwaitCachePromise s1)
                   else resolve env this
                          \<lparr>ra_cacheMetadata = Some (tw_cacheMetadata resolveResult),
                           ra_cachePromise = None,
                           ra_data = Some (tw_data resolveResult), ra_error = None,
                           ra_operation = OpSubscription, ra_queryHash = None,
                           ra_resolvePending = None\<rparr>
                          (if awaitDataCached opts then emit AwaitCachePromise s1 else s1))))"

definition subscription ::
  "('c, 'd) Collaborators \<Rightarrow> ClientHandl \<Rightarrow> string \<Rightarrow> DocumentNode \<Rightarrow> RequestOptions
     \<Rightarrow> RequestContext \<Rightarrow> ('c, 'd) CacheManager
     \<Rightarrow> 'c RequestResult async \<times> ('c, 'd) CacheManager" where
  "subscription env this sub ast opts context s =
     (let hash = hashRequest env sub;
          s1 = emit (SubscriberResolve sub) s
      in case subscriberResolve env sub hash ast opts of
           Inl e \<Rightarrow>
             (let (r, s2) = resolve env this
                    \<lparr>ra_cacheMetadata = None, ra_cachePromise = None, ra_data = None,
                     ra_error = Some e, ra_operation = OpSubscription, ra_queryHash = None,
                     ra_resolvePending = None\<rparr> s1
              in (liftResult r, s2))
         | Inr AsyncIterable \<Rightarrow> (Resolves AsyncIterator, s1)
         | Inr (Execution executionResult) \<Rightarrow>
             (case ex_errors executionResult of
                Some errs \<Rightarrow> (Rejects (ErrorList errs), s1)
              | None \<Rightarrow>
                  (let (r, s2) = resolveSubscriber env this ast (PlainObject executionResult)
                                   opts context s1
                   in (liftResult r, s2))))"

section \<open>The request\<close>

definition resolveRequestOperation ::
  "('c, 'd) Collaborators \<Rightarrow> ClientHandl \<Rightarrow> string \<Rightarrow> DocumentNode \<Rightarrow> RequestOptions
     \<Rightarrow> RequestContext \<Rightarrow> ('c, 'd) CacheManager
     \<Rightarrow> 'c RequestResult async \<times> ('c, 'd) CacheManager" where
  "resolveRequestOperation env this qry ast opts context s =
     (if operation context = ''query''
      then (let (r, s1) = query env this qry ast opts context s in (liftResult r, s1))
      else if operation context = ''mutation''
      then (let (r, s1) = mutation env this qry ast opts context s in (liftResult r, s1))
      else if operation context = ''subscription'' \<and> subscriptionsEnabled this
      then subscription env this qry ast opts context s
      else (Rejects (Error
              ''Request expected the operation to be 'query', 'mutation' or 'subscription'.''), s))"

text \<open>
  Modelled from the spec: the helper \<^verbatim>\<open>getOperationDefinitions\<close> (not among the sources)
  filters the document to its operation nodes and preserves document order.
\<close>

definition getOperationDefinitions :: "DocumentNode \<Rightarrow> OperationDefinitionNode list" where
  "getOperationDefinitions ast =
     List.map_filter (\<lambda>d. case d of OperationDefinition od \<Rightarrow> Some od | FragmentDefinition f \<Rightarrow> None) ast"

text \<open>The two assignments to \<^verbatim>\<open>context.operation\<close> and \<^verbatim>\<open>context.operationName\<close>.\<close>

definition operationContext :: "RequestContext \<Rightarrow> OperationDefinitionNode \<Rightarrow> RequestContext" where
  "operationContext context od =
     context\<lparr>operation := od_operation od,
             ctx_operationName := (case od_name od of None \<Rightarrow> [] | Some n \<Rightarrow> n)\<rparr>"

text \<open>
  The end of \<^verbatim>\<open>_request\<close>, once the operation has settled: an async iterator is returned
  as it is; otherwise the cache promise is awaited when \<^verbatim>\<open>opts.awaitDataCached\<close> is set
  and the result has one, and then \<^verbatim>\<open>delete resolveResult.cachePromise\<close> runs in either
  case. A rejection or a promise that is not settled passes through.
\<close>

definition returnResult ::
  "RequestOptions \<Rightarrow> 'c RequestResult async \<Rightarrow> ('c, 'd) CacheManager
     \<Rightarrow> 'c RequestResult async \<times> ('c, 'd) CacheManager" where
  "returnResult opts result s1 =
     (case result of
        Rejects e \<Rightarrow> (Rejects e, s1)
      | Awaits p \<Rightarrow> (Awaits p, s1)
      | Hangs \<Rightarrow> (Hangs, s1)
      | Resolves AsyncIterator \<Rightarrow> (Resolves AsyncIterator, s1)
      | Resolves (Result resolveResult) \<Rightarrow>
          (case (if awaitDataCached opts then rr_cachePromise resolveResult else None) of
             None \<Rightarrow> (Resolves (Result (resolveResult\<lparr>rr_cachePromise := None\<rparr>)), s1)
           | Some (Fulfilled u) \<Rightarrow>
               (Resolves (Result (resolveResult\<lparr>rr_cachePromise := None\<rparr>)),
                emit AwaitCachePromise s1)
           | Some (Rejected e) \<Rightarrow> (Rejects e, emit AwaitCachePromise s1)
           | Some Pending \<Rightarrow> (Hangs, emit AwaitCachePromise s1)))"

text \<open>
  \<^verbatim>\<open>_request\<close>. The query is a string and the options are a \<^verbatim>\<open>RequestOptions\<close> with a list
  of strings as fragments, so the three guards on the types of the arguments pass.
  Reading \<^verbatim>\<open>operationDefinitions[0].operation\<close> of an empty list throws a TypeError, which
  the \<^verbatim>\<open>catch\<close> turns into the rejection.
\<close>

definition request' ::
  "('c, 'd) Collaborators \<Rightarrow> ClientHandl \<Rightarrow> string \<Rightarrow> RequestOptions \<Rightarrow> RequestContext
     \<Rightarrow> ('c, 'd) CacheManager \<Rightarrow> 'c RequestResult async \<times> ('c, 'd) CacheManager" where
  "request' env this qry opts context s =
     (case updateRequest env qry opts context of
        Inl e \<Rightarrow> (Rejects e, s)
      | Inr updated \<Rightarrow>
          (case validate env (schema this) (upd_ast updated) of
             e # es \<Rightarrow> (Rejects (ErrorList (e # es)), s)
           | [] \<Rightarrow>
               (let operationDefinitions = getOperationDefinitions (upd_ast updated)
                in if length operationDefinitions > 1
                   then (Rejects (TypeError
                           ''Request expected to process one operation, but got multiple.''), s)
                   else
                     (case operationDefinitions of
                        [] \<Rightarrow> (Rejects (TypeError
                                 ''Cannot read property 'operation' of undefined''), s)
                      | od # rest \<Rightarrow>
                          (let (result, s1) =
                                 resolveRequestOperation env this (upd_query updated)
                                   (upd_ast updated) opts (operationContext context od) s
                           in returnResult opts result s1)))))"

definition request ::
  "('c, 'd) Collaborators \<Rightarrow> ClientHandl \<Rightarrow> string \<Rightarrow> RequestOptions \<Rightarrow> string
     \<Rightarrow> ('c, 'd) CacheManager \<Rightarrow> 'c RequestResult async \<times> ('c, 'd) CacheManager" where
  "request env this qry opts uuid s =
     request' env this qry opts \<lparr>handlID = uuid, operation = [], ctx_operationName = []\<rparr> s"

section \<open>Creating the client\<close>

datatype CreateArgs = PlainArgs ClientArgs | OtherArgs

definition initialCachemapOptions :: json where
  "initialCachemapOptions =
     JObject
       [(''dataEntities'', JObject
           [(''indexedDBOptions'', JObject [(''databaseName'', JString ''handl-dataEntities-store''),
                                            (''objectStoreName'', JString ''dataEntities'')]),
            (''name'', JString ''handl-dataEntities''),
            (''redisOptions'', JObject [(''db'', JNumber 0)]),
            (''use'', JObject [(''client'', JString ''indexedDB''), (''server'', JString ''redis'')])]),
        (''queryPaths'', JObject
           [(''indexedDBOptions'', JObject [(''databaseName'', JString ''handl-queryPaths-store''),
                                            (''objectStoreName'', JString ''queryPaths'')]),
            (''name'', JString ''handl-queryPaths''),
            (''redisOptions'', JObject [(''db'', JNumber 1)]),
            (''use'', JObject [(''client'', JString ''indexedDB''), (''server'', JString ''redis'')])]),
        (''responses'', JObject
           [(''indexedDBOptions'', JObject [(''databaseName'', JString ''handl-responses-store''),
                                            (''objectStoreName'', JString ''responses'')]),
            (''name'', JString ''handl-responses''),
            (''redisOptions'', JObject [(''db'', JNumber 2)]),
            (''use'', JObject [(''client'', JString ''indexedDB''), (''server'', JString ''redis'')])])]"

definition initialDefaultCacheControls :: DefaultCacheControls where
  "initialDefaultCacheControls =
     \<lparr>dcc_mutation = ''max-age=0, s-maxage=0, no-cache, no-store'',
      dcc_query = ''public, max-age=60, s-maxage=60'',
      dcc_subscription = ''max-age=0, s-maxage=0, no-cache, no-store''\<rparr>"

fun objectKeys :: "json \<Rightarrow> string list" where
  "objectKeys (JObject kvs) = map fst kvs"
| "objectKeys j = []"

definition setCachemapOptions :: "('c, 'd) Collaborators \<Rightarrow> json \<Rightarrow> json \<Rightarrow> json" where
  "setCachemapOptions env args current =
     (let defaultKeys = objectKeys current;
          argKeys = objectKeys args;
          hasMatch = list_ex (\<lambda>key. key \<in> set argKeys) defaultKeys
      in if \<not> hasMatch
         then (case current of
                 JObject kvs \<Rightarrow> JObject (map (\<lambda>(key, v). (key, merge env v args)) kvs)
               | j \<Rightarrow> j)
         else merge env current args)"

text \<open>The spread \<^verbatim>\<open>{ ...this._defaultCacheControls, ...defaultCacheControls }\<close>.\<close>

definition spreadCacheControls ::
  "DefaultCacheControls \<Rightarrow> (string \<times> string) list \<Rightarrow> DefaultCacheControls" where
  "spreadCacheControls d given =
     \<lparr>dcc_mutation = (case map_of given ''mutation'' of None \<Rightarrow> dcc_mutation d | Some v \<Rightarrow> v),
      dcc_query = (case map_of given ''query'' of None \<Rightarrow> dcc_query d | Some v \<Rightarrow> v),
      dcc_subscription =
        (case map_of given ''subscription'' of None \<Rightarrow> dcc_subscription d | Some v \<Rightarrow> v)\<rparr>"

fun isPlainObject :: "json option \<Rightarrow> bool" where
  "isPlainObject (Some (JObject kvs)) = True"
| "isPlainObject j = False"

text \<open>
  The constructor; \<open>oid\<close> is the identity of the object under construction. In the
  default mode \<^verbatim>\<open>buildClientSchema(introspection)\<close> runs as soon as the introspection
  result is seen to be a plain object; when it throws, that error leaves the constructor
  at once, before the other arguments are looked at.
\<close>

definition constructor ::
  "('c, 'd) Collaborators \<Rightarrow> nat \<Rightarrow> CreateArgs \<Rightarrow> error + ClientHandl" where
  "constructor env oid args =
     (case args of
        OtherArgs \<Rightarrow> Inl (TypeError ''Constructor expected args to be a plain object.'')
      | PlainArgs a \<Rightarrow>
          (let md = (if arg_mode a = Some ''server'' \<and> \<not> webEnv env then ModeServer else ModeDefault);
               built =
                 (case md of
                    ModeDefault \<Rightarrow>
                      (if isPlainObject (arg_introspection a)
                       then (case buildClientSchema env (the (arg_introspection a)) of
                               Inl e \<Rightarrow> Inl e
                             | Inr sch \<Rightarrow> Inr (Some sch))
                       else Inr None)
                  | ModeServer \<Rightarrow> Inr None)
           in case built of
                Inl e \<Rightarrow> Inl e
              | Inr clientSchema \<Rightarrow>
          (let errors =
                 (case md of
                    ModeDefault \<Rightarrow>
                      (if isPlainObject (arg_introspection a) then []
                       else [TypeError ''Constructor expected introspection to be a plain object.''])
                      @ (if arg_url a \<noteq> None then []
                         else [TypeError ''Constructor expected url to be a string.''])
                  | ModeServer \<Rightarrow>
                      (if arg_schema a \<noteq> None then []
                       else [TypeError
                          ''Constructor expected schema to be an instance of GraphQLSchema.'']));
               subscribes =
                 (case md of
                    ModeDefault \<Rightarrow> socketsSupported env \<and> arg_subscriptions a \<noteq> None
                  | ModeServer \<Rightarrow> True)
           in if errors \<noteq> [] then Inl (ErrorList errors)
              else Inr
                \<lparr>objectId = oid,
                 cachemapOptions =
                   (if isPlainObject (arg_cachemapOptions a)
                    then setCachemapOptions env (the (arg_cachemapOptions a)) initialCachemapOptions
                    else initialCachemapOptions),
                 defaultCacheControls =
                   (case arg_defaultCacheControls a of
                      None \<Rightarrow> initialDefaultCacheControls
                    | Some given \<Rightarrow> spreadCacheControls initialDefaultCacheControls given),
                 mode = md,
                 requestExecutor =
                   (case md of
                      ModeDefault \<Rightarrow>
                        FetchManager (arg_batch a) (arg_fetchTimeout a) (arg_headers a) (the (arg_url a))
                    | ModeServer \<Rightarrow> GraphQLExecute (SchemaInstance (the (arg_schema a)))),
                 requestSubscriber =
                   (case md of
                      ModeDefault \<Rightarrow>
                        (if subscribes
                         then Some (SocketManager (sub_address (the (arg_subscriptions a)))
                                      (sub_opts (the (arg_subscriptions a))))
                         else None)
                    | ModeServer \<Rightarrow> Some (GraphQLSubscribe (SchemaInstance (the (arg_schema a))))),
                 resourceKey = (case arg_resourceKey a of None \<Rightarrow> ''id'' | Some k \<Rightarrow> k),
                 schema =
                   (case md of
                      ModeDefault \<Rightarrow> the clientSchema
                    | ModeServer \<Rightarrow> SchemaInstance (the (arg_schema a))),
                 subscriptionsEnabled = subscribes,
                 typeCacheControls = arg_typeCacheControls a\<rparr>)))"

text \<open>The module variable \<^verbatim>\<open>instance\<close> (\<open>moduleInstance\<close>), and the number of objects made so far.\<close>

record Module =
  moduleInstance :: "ClientHandl option"
  allocated :: nat

definition create ::
  "('c, 'd) Collaborators \<Rightarrow> CreateArgs \<Rightarrow> Module \<Rightarrow> ClientHandl async \<times> Module" where
  "create env args g =
     (case (moduleInstance g, args) of
        (Some inst, PlainArgs a) \<Rightarrow>
          if \<not> arg_newInstance a then (Resolves inst, g)
          else (case constructor env (allocated g) args of
                  Inl e \<Rightarrow> (Rejects e, g)
                | Inr client \<Rightarrow>
                    (case cacheManagerCreate env client of
                       Some e \<Rightarrow> (Rejects e, g\<lparr>allocated := Suc (allocated g)\<rparr>)
                     | None \<Rightarrow> (Resolves client,
                                \<lparr>moduleInstance = Some client, allocated = Suc (allocated g)\<rparr>)))
      | _ \<Rightarrow>
          (case constructor env (allocated g) args of
             Inl e \<Rightarrow> (Rejects e, g)
           | Inr client \<Rightarrow>
               (case cacheManagerCreate env client of
                  Some e \<Rightarrow> (Rejects e, g\<lparr>allocated := Suc (allocated g)\<rparr>)
                | None \<Rightarrow> (Resolves client,
                           \<lparr>moduleInstance = Some client, allocated = Suc (allocated g)\<rparr>))))"

section \<open>Reachable states\<close>

text \<open>
  The states of the cache manager that the client can bring about: it starts with empty
  registries and no promise, and every step is a part of a query, a request or the
  handling of a subscription message, with any arguments and any collaborators.
\<close>

inductive reachable :: "('c, 'd) CacheManager \<Rightarrow> bool" where
  initial: "pending s = [] \<Longrightarrow> promises s = [] \<Longrightarrow> reachable s"
| begun: "reachable s \<Longrightarrow> reachable (snd (queryBegin env this qry ast opts context s))"
| fetching: "reachable s \<Longrightarrow> reachable (snd (fetch env req oast opts context s))"
| fetched: "reachable s
     \<Longrightarrow> reachable (snd (queryFetched env this h req oast filt opts context outcome s))"
| requested: "reachable s \<Longrightarrow> reachable (snd (request' env this qry opts context s))"
| message: "reachable s \<Longrightarrow> reachable (snd (resolveSubscriber env this ast msg opts context s))"

text \<open>
  What holds of the registries in every such state: the promises in use are numbered
  below the next one, a promise in a pending list is pending, and no promise is in the
  lists of two fingerprints.
\<close>

definition wellFormed :: "('c, 'd) CacheManager \<Rightarrow> bool" where
  "wellFormed s \<longleftrightarrow>
     (\<forall>p. map_of (promises s) p \<noteq> None \<longrightarrow> p < length (promises s))
     \<and> (\<forall>h ps p. map_of (pending s) h = Some ps \<and> p \<in> set ps
           \<longrightarrow> map_of (promises s) p = Some Pending)
     \<and> (\<forall>h h' ps ps'. map_of (pending s) h = Some ps \<and> map_of (pending s) h' = Some ps' \<and> h \<noteq> h'
           \<longrightarrow> set ps \<inter> set ps' = {})"

section \<open>Example inputs\<close>

text \<open>Concrete collaborators and states at which the theorems below are instantiated.\<close>

text \<open>An introspection result, cut down to the part the example schema builder looks at.\<close>

definition exampleIntrospection :: json where
  "exampleIntrospection =
     JObject [(''__schema'', JObject [(''queryType'', JObject [(''name'', JString ''Query'')]),
                                      (''types'', JArray [])])]"

definition exampleCollaborators :: "(string, (string \<times> string) list) Collaborators" where
  "exampleCollaborators =
     \<lparr>hashRequest = (\<lambda>q. ''#'' @ q),
      parseCacheControl = (\<lambda>d. d),
      printCacheControl = (\<lambda>c. c),
      isValid = (\<lambda>c. case c of None \<Rightarrow> False | Some d \<Rightarrow> d \<noteq> ''no-store''),
      rehydrateCacheMetadata = (\<lambda>d. d),
      dehydrateCacheMetadata = (\<lambda>m. m),
      createCacheMetadata = (\<lambda>d h. case d of None \<Rightarrow> [] | Some m \<Rightarrow> m),
      storeFault = (\<lambda>op key. None),
      storeAfterFault = (\<lambda>key val store. store),
      executorResolve = (\<lambda>q ast opts. Inl (Error ''Failed to fetch'')),
      subscriberResolve = (\<lambda>q h ast opts. Inr AsyncIterable),
      analyze = (\<lambda>s h ast context.
         \<lparr>cachedData = None, ar_cacheMetadata = None, filtered = Some False,
          updatedAST = Some ast, updatedQuery = Some ''{ user { id name } }''\<rparr>),
      normalise = (\<lambda>op s ast dat cm context.
         \<lparr>tw_cacheMetadata = cm, tw_data = (case dat of None \<Rightarrow> JNull | Some j \<Rightarrow> j),
          tw_dataEntities = [(''User:1'', JObject [(''name'', JString ''Grace'')])],
          tw_queryPaths = [(''path'', JString ''User:1'')],
          tw_cacheResolve = True\<rparr>),
      updateRequest = (\<lambda>q opts context.
         Inr \<lparr>upd_ast = [OperationDefinition \<lparr>od_operation = ''query'', od_name = None\<rparr>],
              upd_query = q\<rparr>),
      validate = (\<lambda>sch ast. []),
      merge = (\<lambda>a b. a),
      webEnv = False,
      socketsSupported = False,
      cacheManagerCreate = (\<lambda>client. None),
      buildClientSchema = (\<lambda>introspection.
         case introspection of
           JObject kvs \<Rightarrow>
             (if map_of kvs ''__schema'' = None
              then Inl (Error ''Invalid or incomplete introspection result.'')
              else Inr (ClientSchema introspection))
         | j \<Rightarrow> Inl (Error ''Invalid or incomplete introspection result.''))\<rparr>"

definition exampleClient :: ClientHandl where
  "exampleClient =
     \<lparr>objectId = 0,
      cachemapOptions = initialCachemapOptions,
      defaultCacheControls = initialDefaultCacheControls,
      mode = ModeDefault,
      requestExecutor = FetchManager None None None ''/graphql'',
      requestSubscriber = None,
      resourceKey = ''id'',
      schema = ClientSchema exampleIntrospection,
      subscriptionsEnabled = False,
      typeCacheControls = None\<rparr>"

definition exampleOptions :: RequestOptions where
  "exampleOptions =
     \<lparr>awaitDataCached = False, fragments = None, operationName = None, tag = None,
      variables = None\<rparr>"

definition exampleContext :: RequestContext where
  "exampleContext = \<lparr>handlID = ''1'', operation = ''query'', ctx_operationName = []\<rparr>"

definition emptyCache :: "('c, 'd) CacheManager" where
  "emptyCache =
     \<lparr>responses = [], dataEntities = [], queryPaths = [], active = [], pending = [],
      promises = [], trace = []\<rparr>"

definition drainingCache :: "(string, (string \<times> string) list) CacheManager" where
  "drainingCache =
     \<lparr>responses = [], dataEntities = [], queryPaths = [],
      active = [(''#{ user { id name } }'', ''{ user { id name } }'')],
      pending = [(''#{ user { id name } }'', [0, 1])],
      promises = [(0, Pending), (1, Pending)],
      trace = [ResponsesHas ''#{ user { id name } }'', CacheAnalyze ''#{ user { id name } }'',
               ExecutorResolve (Some ''{ user { id name } }''),
               ResponsesHas ''#{ user { id name } }'', ResponsesHas ''#{ user { id name } }'']\<rparr>"

text \<open>A response record stored without an entry for the whole query, and still valid.\<close>

definition storedEntry :: "(string, (string \<times> string) list) StoreEntry" where
  "storedEntry =
     \<lparr>se_cacheability = ''public, max-age=60'',
      se_value = \<lparr>rec_cacheMetadata = [(''user'', ''max-age=60'')],
                  rec_data = JObject [(''user'', JObject [(''id'', JString ''1''),
                                                          (''name'', JString ''Ada'')])]\<rparr>,
      se_tag = None\<rparr>"

definition hitCache :: "(string, (string \<times> string) list) CacheManager" where
  "hitCache =
     \<lparr>responses = [(''#{ user { id name } }'', storedEntry)], dataEntities = [], queryPaths = [],
      active = [], pending = [], promises = [], trace = []\<rparr>"

text \<open>Collaborators whose analysis rebuilds the whole response from the cache.\<close>

definition analysedCollaborators :: "(string, (string \<times> string) list) Collaborators" where
  "analysedCollaborators =
     exampleCollaborators
       \<lparr>analyze := (\<lambda>s h ast context.
          \<lparr>cachedData = Some (JObject [(''user'', JObject [(''id'', JString ''1'')])]),
           ar_cacheMetadata = Some [(''query'', ''max-age=30''), (''user'', ''max-age=30'')],
           filtered = None, updatedAST = None, updatedQuery = None\<rparr>)\<rparr>"

text \<open>The same, with a responses store whose \<^verbatim>\<open>set\<close> throws.\<close>

definition faultyCollaborators :: "(string, (string \<times> string) list) Collaborators" where
  "faultyCollaborators =
     analysedCollaborators
       \<lparr>storeFault := (\<lambda>op key. if op = StoreSet then Some (Error ''QuotaExceededError'') else None)\<rparr>"

definition exampleAST :: DocumentNode where
  "exampleAST = [OperationDefinition \<lparr>od_operation = ''query'', od_name = None\<rparr>]"

text \<open>Collaborators for a mutation that the executor answers.\<close>

definition mutationText :: string where
  "mutationText = ''mutation { updateUser(id: 1, name: Grace) { id name } }''"

definition mutationOD :: OperationDefinitionNode where
  "mutationOD = \<lparr>od_operation = ''mutation'', od_name = None\<rparr>"

definition mutationAST :: DocumentNode where
  "mutationAST = [OperationDefinition mutationOD]"

definition mutationUpdate :: UpdateRequestResult where
  "mutationUpdate = \<lparr>upd_ast = mutationAST, upd_query = mutationText\<rparr>"

definition mutatingCollaborators :: "(string, (string \<times> string) list) Collaborators" where
  "mutatingCollaborators =
     exampleCollaborators
       \<lparr>executorResolve := (\<lambda>q ast opts.
          Inr \<lparr>raw_cacheMetadata = None,
               raw_data = Some (JObject [(''updateUser'', JObject [(''id'', JString ''1''),
                                                                  (''name'', JString ''Grace'')])]),
               raw_errors = None, raw_headers = []\<rparr>),
        updateRequest := (\<lambda>q opts context. Inr mutationUpdate)\<rparr>"

definition awaitingOptions :: RequestOptions where
  "awaitingOptions = exampleOptions\<lparr>awaitDataCached := True\<rparr>"

text \<open>Documents with two operations: anonymous ones, which validation refuses, and named ones.\<close>

definition twoAnonymousAST :: DocumentNode where
  "twoAnonymousAST =
     [OperationDefinition \<lparr>od_operation = ''query'', od_name = None\<rparr>,
      OperationDefinition \<lparr>od_operation = ''query'', od_name = None\<rparr>]"

definition anonymousCollaborators :: "(string, (string \<times> string) list) Collaborators" where
  "anonymousCollaborators =
     exampleCollaborators
       \<lparr>updateRequest := (\<lambda>q opts context. Inr \<lparr>upd_ast = twoAnonymousAST, upd_query = q\<rparr>),
        validate := (\<lambda>sch ast.
          [Error ''This anonymous operation must be the only defined operation.'',
           Error ''This anonymous operation must be the only defined operation.''])\<rparr>"

definition namedUpdate :: UpdateRequestResult where
  "namedUpdate =
     \<lparr>upd_ast = [OperationDefinition \<lparr>od_operation = ''query'', od_name = Some ''A''\<rparr>,
                 OperationDefinition \<lparr>od_operation = ''query'', od_name = Some ''B''\<rparr>],
      upd_query = ''query A { a } query B { b }''\<rparr>"

definition namedCollaborators :: "(string, (string \<times> string) list) Collaborators" where
  "namedCollaborators =
     exampleCollaborators\<lparr>updateRequest := (\<lambda>q opts context. Inr namedUpdate)\<rparr>"

text \<open>A subscription, and a message of one.\<close>

definition subscriptionOD :: OperationDefinitionNode where
  "subscriptionOD = \<lparr>od_operation = ''subscription'', od_name = None\<rparr>"

definition subscriptionUpdate :: UpdateRequestResult where
  "subscriptionUpdate =
     \<lparr>upd_ast = [OperationDefinition subscriptionOD],
      upd_query = ''subscription { userChanged { id } }''\<rparr>"

definition subscribingCollaborators :: "(string, (string \<times> string) list) Collaborators" where
  "subscribingCollaborators =
     exampleCollaborators\<lparr>updateRequest := (\<lambda>q opts context. Inr subscriptionUpdate)\<rparr>"

definition exampleMessage :: "(string \<times> string) list ExecutionResult" where
  "exampleMessage =
     \<lparr>ex_cacheMetadata = None,
      ex_data = Some (JObject [(''userChanged'', JObject [(''id'', JString ''1'')])]),
      ex_errors = None\<rparr>"

text \<open>Arguments of \<^verbatim>\<open>create\<close>: those \<open>exampleClient\<close> is made from, and different ones.\<close>

definition exampleArgs :: ClientArgs where
  "exampleArgs =
     \<lparr>arg_batch = None, arg_cachemapOptions = None, arg_defaultCacheControls = None,
      arg_fetchTimeout = None, arg_headers = None, arg_introspection = Some exampleIntrospection,
      arg_mode = None, arg_newInstance = False, arg_resourceKey = None, arg_schema = None,
      arg_subscriptions = None, arg_typeCacheControls = None, arg_url = Some ''/graphql''\<rparr>"

definition otherArgs :: ClientArgs where
  "otherArgs =
     exampleArgs\<lparr>arg_url := Some ''/other'', arg_resourceKey := Some ''uuid'',
                 arg_introspection := None\<rparr>"

definition freshModule :: Module where
  "freshModule = \<lparr>moduleInstance = None, allocated = 0\<rparr>"

section \<open>Promises of the pending registry\<close>

lemma settle_fields [simp]:
  "pending (settle p v s) = pending s"
  "active (settle p v s) = active s"
  "responses (settle p v s) = responses s"
  "dataEntities (settle p v s) = dataEntities s"
  "queryPaths (settle p v s) = queryPaths s"
  "trace (settle p v s) = trace s"
  by (simp_all add: settle_def split: option.splits promise.splits)

lemma map_of_settle:
  "map_of (promises (settle p v s)) q =
     (if q = p \<and> map_of (promises s) p = Some Pending then Some v else map_of (promises s) q)"
  by (simp add: settle_def update_conv' split: option.splits promise.splits)

lemma fold_settle_fields [simp]:
  "pending (fold (\<lambda>p. settle p (f p)) ps s) = pending s"
  "active (fold (\<lambda>p. settle p (f p)) ps s) = active s"
  "responses (fold (\<lambda>p. settle p (f p)) ps s) = responses s"
  "dataEntities (fold (\<lambda>p. settle p (f p)) ps s) = dataEntities s"
  "queryPaths (fold (\<lambda>p. settle p (f p)) ps s) = queryPaths s"
  "trace (fold (\<lambda>p. settle p (f p)) ps s) = trace s"
  by (induction ps arbitrary: s; simp)+

lemma map_of_fold_settle:
  "map_of (promises (fold (\<lambda>p. settle p v) ps s)) q =
     (if q \<in> set ps \<and> map_of (promises s) q = Some Pending then Some v
      else map_of (promises s) q)"
proof (induction ps arbitrary: s)
  case Nil
  then show ?case by simp
next
  case (Cons a ps)
  show ?case
    by (auto simp: Cons.IH map_of_settle)
qed


lemma resolvePendingRequests_error:
  assumes "map_of (pending s) h = Some callers"
  shows "map_of (promises (resolvePendingRequests h cm dat (Some e) s)) q =
           (if q \<in> set callers \<and> map_of (promises s) q = Some Pending then Some (Rejected e)
            else map_of (promises s) q)"
    and "pending (resolvePendingRequests h cm dat (Some e) s) = AList.delete h (pending s)"
    and "active (resolvePendingRequests h cm dat (Some e) s) = active s"
  using assms by (simp_all add: resolvePendingRequests_def map_of_fold_settle)

section \<open>What the steps leave unchanged\<close>

lemma emit_fields [simp]:
  "responses (emit ev s) = responses s"
  "dataEntities (emit ev s) = dataEntities s"
  "queryPaths (emit ev s) = queryPaths s"
  "active (emit ev s) = active s"
  "pending (emit ev s) = pending s"
  "promises (emit ev s) = promises s"
  "trace (emit ev s) = trace s @ [ev]"
  by (simp_all add: emit_def)

lemma resolvePendingRequests_fields [simp]:
  "responses (resolvePendingRequests h cm dat err s) = responses s"
  "dataEntities (resolvePendingRequests h cm dat err s) = dataEntities s"
  "queryPaths (resolvePendingRequests h cm dat err s) = queryPaths s"
  "trace (resolvePendingRequests h cm dat err s) = trace s"
  "active (resolvePendingRequests h cm dat err s) = active s"
  by (cases err; simp add: resolvePendingRequests_def split: option.splits)+

lemma resolve_fields [simp]:
  "responses (snd (resolve env this args s)) = responses s"
  "dataEntities (snd (resolve env this args s)) = dataEntities s"
  "queryPaths (snd (resolve env this args s)) = queryPaths s"
  "trace (snd (resolve env this args s)) = trace s"
  by (simp_all add: resolve_def Let_def split: option.splits)

lemma resolve_result:
  "fst (resolve env this args s) =
     (case ra_error args of
        Some e \<Rightarrow> Rejects e
      | None \<Rightarrow>
          Resolves
            \<lparr>rr_cacheMetadata =
               (case ra_cacheMetadata args of
                  None \<Rightarrow> None
                | Some cm \<Rightarrow>
                    if map_of cm ''query'' = None
                    then Some (AList.update ''query''
                           (parseCacheControl env
                              (defaultCacheControl (defaultCacheControls this) (ra_operation args))) cm)
                    else Some cm),
             rr_cachePromise = ra_cachePromise args,
             rr_data = ra_data args,
             rr_queryHash = (if truthy (ra_queryHash args) then ra_queryHash args else None)\<rparr>)"
  by (simp add: resolve_def Let_def split: option.splits)

lemma resolve_active:
  "map_of (active (snd (resolve env this args s))) h =
     (if (case ra_resolvePending args of None \<Rightarrow> True | Some b \<Rightarrow> b) \<and> truthy (ra_queryHash args)
         \<and> ra_queryHash args = Some h
      then None else map_of (active s) h)"
  by (auto simp: resolve_def Let_def delete_conv' truthy_def split: option.splits)

lemma checkResponseCache_fields [simp]:
  "responses (snd (checkResponseCache env h context s)) = responses s"
  "dataEntities (snd (checkResponseCache env h context s)) = dataEntities s"
  "queryPaths (snd (checkResponseCache env h context s)) = queryPaths s"
  "active (snd (checkResponseCache env h context s)) = active s"
  "pending (snd (checkResponseCache env h context s)) = pending s"
  "promises (snd (checkResponseCache env h context s)) = promises s"
  by (simp_all add: checkResponseCache_def Let_def split: option.splits)

lemma checkResponseCache_calls [simp]:
  "executorCalls (snd (checkResponseCache env h context s)) = executorCalls s"
  by (simp add: checkResponseCache_def executorCalls_def Let_def split: option.splits)

lemma responsesSet_fields [simp]:
  "trace (snd (responsesSet env key val cc tg s)) = trace s @ [ResponsesSet key cc]"
  "responses (snd (responsesSet env key val cc tg s)) =
     (case storeFault env StoreSet key of
        Some e \<Rightarrow> storeAfterFault env key val (responses s)
      | None \<Rightarrow> AList.update key
          \<lparr>se_cacheability = parseCacheControl env cc, se_value = val, se_tag = tg\<rparr> (responses s))"
  by (simp_all add: responsesSet_def split: option.splits)

section \<open>Answers from the response cache\<close>

lemma checkResponseCache_hit:
  assumes "storeFault env StoreHas h = None"
    and "storeFault env StoreGet h = None"
    and "map_of (responses s) h = Some entry"
    and "isValid env (Some (se_cacheability entry))"
  shows "checkResponseCache env h context s =
           (Some \<lparr>rr_cacheMetadata =
                    Some (rehydrateCacheMetadata env (rec_cacheMetadata (se_value entry))),
                  rr_cachePromise = None,
                  rr_data = Some (rec_data (se_value entry)),
                  rr_queryHash = None\<rparr>,
            emit (ResponsesGet h) (emit (ResponsesHas h) s))"
  using assms by (simp add: checkResponseCache_def Let_def)

text \<open>The metadata a caller is given: \<^verbatim>\<open>_resolve\<close> adds the default entry when there is none.\<close>

lemma cached_query:
  assumes "storeFault env StoreHas (hashRequest env qry) = None"
    and "storeFault env StoreGet (hashRequest env qry) = None"
    and "map_of (responses s) (hashRequest env qry) = Some entry"
    and "isValid env (Some (se_cacheability entry))"
  shows "query env this qry ast opts context s =
           (Resolves
              \<lparr>rr_cacheMetadata =
                 Some (let cm = rehydrateCacheMetadata env (rec_cacheMetadata (se_value entry))
                       in if map_of cm ''query'' = None
                          then AList.update ''query''
                                 (parseCacheControl env (dcc_query (defaultCacheControls this))) cm
                          else cm),
               rr_cachePromise = None,
               rr_data = Some (rec_data (se_value entry)),
               rr_queryHash = (if hashRequest env qry = [] then None
                               else Some (hashRequest env qry))\<rparr>,
            s\<lparr>trace := trace s @ [ResponsesHas (hashRequest env qry),
                                   ResponsesGet (hashRequest env qry)]\<rparr>)"
  using assms
  by (simp add: query_def queryBegin_def checkResponseCache_hit resolve_def Let_def truthy_def
      defaultCacheControl_def emit_def)


text \<open>
  Claim C2, as the code has it. The responses store holds an entry for the fingerprint
  of the query, its Cacheability is valid, and the two reads of the store do not throw.
  Then the executor is not called, and the caller is given the data of the stored record
  with its rehydrated metadata, to which \<^verbatim>\<open>_resolve\<close> adds an entry \<^verbatim>\<open>"query"\<close> parsed from
  the default query directive when the rehydrated metadata has none.
\<close>

theorem response_cache_hit:
  assumes "storeFault env StoreHas (hashRequest env qry) = None"
    and "storeFault env StoreGet (hashRequest env qry) = None"
    and "map_of (responses s) (hashRequest env qry) = Some entry"
    and "isValid env (Some (se_cacheability entry))"
  shows "query env this qry ast opts context s =
           (Resolves
              \<lparr>rr_cacheMetadata =
                 Some (let cm = rehydrateCacheMetadata env (rec_cacheMetadata (se_value entry))
                       in if map_of cm ''query'' = None
                          then AList.update ''query''
                                 (parseCacheControl env (dcc_query (defaultCacheControls this))) cm
                          else cm),
               rr_cachePromise = None,
               rr_data = Some (rec_data (se_value entry)),
               rr_queryHash = (if hashRequest env qry = [] then None
                               else Some (hashRequest env qry))\<rparr>,
            s\<lparr>trace := trace s @ [ResponsesHas (hashRequest env qry),
                                   ResponsesGet (hashRequest env qry)]\<rparr>)
         \<and> executorCalls (snd (query env this qry ast opts context s)) = executorCalls s"
  using cached_query [OF assms] by (simp add: executorCalls_def)

theorem response_cache_hit_witness:
  "storeFault exampleCollaborators StoreHas (hashRequest exampleCollaborators ''{ user { id name } }'') = None
   \<and> storeFault exampleCollaborators StoreGet (hashRequest exampleCollaborators ''{ user { id name } }'') = None
   \<and> map_of (responses hitCache) (hashRequest exampleCollaborators ''{ user { id name } }'')
       = Some storedEntry
   \<and> isValid exampleCollaborators (Some (se_cacheability storedEntry))
   \<and> query exampleCollaborators exampleClient ''{ user { id name } }'' exampleAST exampleOptions
        exampleContext hitCache =
       (Resolves
          \<lparr>rr_cacheMetadata = Some [(''user'', ''max-age=60''),
                                    (''query'', ''public, max-age=60, s-maxage=60'')],
           rr_cachePromise = None,
           rr_data = Some (JObject [(''user'', JObject [(''id'', JString ''1''),
                                                        (''name'', JString ''Ada'')])]),
           rr_queryHash = Some ''#{ user { id name } }''\<rparr>,
        hitCache\<lparr>trace := [ResponsesHas ''#{ user { id name } }'',
                             ResponsesGet ''#{ user { id name } }'']\<rparr>)
   \<and> executorCalls (snd (query exampleCollaborators exampleClient ''{ user { id name } }''
        exampleAST exampleOptions exampleContext hitCache)) = executorCalls hitCache"
proof -
  have h1: "storeFault exampleCollaborators StoreHas
              (hashRequest exampleCollaborators ''{ user { id name } }'') = None"
    by (simp add: exampleCollaborators_def)
  have h2: "storeFault exampleCollaborators StoreGet
              (hashRequest exampleCollaborators ''{ user { id name } }'') = None"
    by (simp add: exampleCollaborators_def)
  have h3: "map_of (responses hitCache) (hashRequest exampleCollaborators ''{ user { id name } }'')
              = Some storedEntry"
    by (simp add: exampleCollaborators_def hitCache_def)
  have h4: "isValid exampleCollaborators (Some (se_cacheability storedEntry))"
    by (simp add: exampleCollaborators_def storedEntry_def)
  have c: "rehydrateCacheMetadata exampleCollaborators (rec_cacheMetadata (se_value storedEntry))
             = [(''user'', ''max-age=60'')]"
       "rec_data (se_value storedEntry)
          = JObject [(''user'', JObject [(''id'', JString ''1''), (''name'', JString ''Ada'')])]"
       "parseCacheControl exampleCollaborators (dcc_query (defaultCacheControls exampleClient))
          = ''public, max-age=60, s-maxage=60''"
       "hashRequest exampleCollaborators ''{ user { id name } }'' = ''#{ user { id name } }''"
       "trace hitCache = []"
    by (simp_all add: exampleCollaborators_def storedEntry_def exampleClient_def
        initialDefaultCacheControls_def hitCache_def)
  show ?thesis
    using h1 h2 h3 h4
      response_cache_hit [OF h1 h2 h3 h4, of exampleClient exampleAST exampleOptions exampleContext]
    by (simp add: c executorCalls_def)
qed

text \<open>
  The claim as it is written promises the rehydrated metadata itself. For a stored
  record whose metadata has no entry \<^verbatim>\<open>"query"\<close> the caller is given more than that.
\<close>

theorem response_cache_hit_counterexample:
  "map_of (responses hitCache) (hashRequest exampleCollaborators ''{ user { id name } }'')
     = Some storedEntry
   \<and> isValid exampleCollaborators (Some (se_cacheability storedEntry))
   \<and> fst (query exampleCollaborators exampleClient ''{ user { id name } }'' exampleAST
             exampleOptions exampleContext hitCache) =
       Resolves
          \<lparr>rr_cacheMetadata = Some [(''user'', ''max-age=60''),
                                    (''query'', ''public, max-age=60, s-maxage=60'')],
           rr_cachePromise = None,
           rr_data = Some (rec_data (se_value storedEntry)),
           rr_queryHash = Some ''#{ user { id name } }''\<rparr>
   \<and> rehydrateCacheMetadata exampleCollaborators (rec_cacheMetadata (se_value storedEntry))
       = [(''user'', ''max-age=60'')]
   \<and> [(''user'', ''max-age=60''), (''query'', ''public, max-age=60, s-maxage=60'')]
       \<noteq> rehydrateCacheMetadata exampleCollaborators (rec_cacheMetadata (se_value storedEntry))"
  by (simp add: query_def queryBegin_def checkResponseCache_def resolve_def Let_def truthy_def
      defaultCacheControl_def emit_def exampleCollaborators_def storedEntry_def exampleClient_def
      initialDefaultCacheControls_def hitCache_def)


section \<open>Answers rebuilt by the analysis\<close>

lemma analysed_query:
  assumes "fst (checkResponseCache env (hashRequest env qry) context s) = None"
    and "map_of (active s) (hashRequest env qry) = None"
    and "cachedData (analyze env
            ((snd (checkResponseCache env (hashRequest env qry) context s))
               \<lparr>active := AList.update (hashRequest env qry) qry (active s)\<rparr>)
            (hashRequest env qry) ast context) = Some cd"
    and "ar_cacheMetadata (analyze env
            ((snd (checkResponseCache env (hashRequest env qry) context s))
               \<lparr>active := AList.update (hashRequest env qry) qry (active s)\<rparr>)
            (hashRequest env qry) ast context) = Some cm"
  shows "fst (query env this qry ast opts context s) =
           Resolves
             \<lparr>rr_cacheMetadata =
                Some (if map_of cm ''query'' = None
                      then AList.update ''query''
                             (parseCacheControl env (dcc_query (defaultCacheControls this))) cm
                      else cm),
              rr_cachePromise = Some (Fulfilled ()),
              rr_data = Some cd,
              rr_queryHash = (if hashRequest env qry = [] then None
                              else Some (hashRequest env qry))\<rparr>"
    and "trace (snd (query env this qry ast opts context s)) =
           trace (snd (checkResponseCache env (hashRequest env qry) context s))
             @ [CacheAnalyze (hashRequest env qry),
                ResponsesSet (hashRequest env qry) (queryCacheControl env this cm)]"
    and "responses (snd (query env this qry ast opts context s)) =
           (case storeFault env StoreSet (hashRequest env qry) of
              Some e \<Rightarrow>
                storeAfterFault env (hashRequest env qry)
                  \<lparr>rec_cacheMetadata = dehydrateCacheMetadata env cm, rec_data = cd\<rparr> (responses s)
            | None \<Rightarrow>
                AList.update (hashRequest env qry)
                  \<lparr>se_cacheability = parseCacheControl env (queryCacheControl env this cm),
                   se_value = \<lparr>rec_cacheMetadata = dehydrateCacheMetadata env cm, rec_data = cd\<rparr>,
                   se_tag = tag opts\<rparr> (responses s))"
proof -
  obtain c s1 where chk: "checkResponseCache env (hashRequest env qry) context s = (c, s1)"
    by (cases "checkResponseCache env (hashRequest env qry) context s")
  from chk assms(1) have c: "c = None" by simp
  from chk have act: "active s1 = active s"
    by (metis checkResponseCache_fields(4) snd_conv)
  from chk have rsp: "responses s1 = responses s"
    by (metis checkResponseCache_fields(1) snd_conv)
  have qb: "queryBegin env this qry ast opts context s =
      (let s3 = emit (CacheAnalyze (hashRequest env qry))
                  (s1\<lparr>active := AList.update (hashRequest env qry) qry (active s)\<rparr>);
           (thrown, s4) = responsesSet env (hashRequest env qry)
                 \<lparr>rec_cacheMetadata = dehydrateCacheMetadata env cm, rec_data = cd\<rparr>
                 (queryCacheControl env this cm) (tag opts) s3;
           (r, s5) = resolve env this
                 \<lparr>ra_cacheMetadata = Some cm, ra_cachePromise = Some (Fulfilled ()),
                  ra_data = Some cd, ra_error = None, ra_operation = OpQuery,
                  ra_queryHash = Some (hashRequest env qry), ra_resolvePending = None\<rparr> s4
       in (Done r, s5))"
    using assms(2,3,4) chk c act
    by (simp add: queryBegin_def Let_def split: prod.splits option.splits)
  show "fst (query env this qry ast opts context s) =
           Resolves
             \<lparr>rr_cacheMetadata =
                Some (if map_of cm ''query'' = None
                      then AList.update ''query''
                             (parseCacheControl env (dcc_query (defaultCacheControls this))) cm
                      else cm),
              rr_cachePromise = Some (Fulfilled ()),
              rr_data = Some cd,
              rr_queryHash = (if hashRequest env qry = [] then None
                              else Some (hashRequest env qry))\<rparr>"
    by (simp add: query_def qb Let_def case_prod_beta resolve_result truthy_def
        defaultCacheControl_def)
  show "trace (snd (query env this qry ast opts context s)) =
           trace (snd (checkResponseCache env (hashRequest env qry) context s))
             @ [CacheAnalyze (hashRequest env qry),
                ResponsesSet (hashRequest env qry) (queryCacheControl env this cm)]"
    using chk by (simp add: query_def qb Let_def case_prod_beta)
  show "responses (snd (query env this qry ast opts context s)) =
           (case storeFault env StoreSet (hashRequest env qry) of
              Some e \<Rightarrow>
                storeAfterFault env (hashRequest env qry)
                  \<lparr>rec_cacheMetadata = dehydrateCacheMetadata env cm, rec_data = cd\<rparr> (responses s)
            | None \<Rightarrow>
                AList.update (hashRequest env qry)
                  \<lparr>se_cacheability = parseCacheControl env (queryCacheControl env this cm),
                   se_value = \<lparr>rec_cacheMetadata = dehydrateCacheMetadata env cm, rec_data = cd\<rparr>,
                   se_tag = tag opts\<rparr> (responses s))"
    using rsp by (simp add: query_def qb Let_def case_prod_beta split: option.splits)
qed

lemma analysed_query_calls:
  assumes "fst (checkResponseCache env (hashRequest env qry) context s) = None"
    and "map_of (active s) (hashRequest env qry) = None"
    and "cachedData (analyze env
            ((snd (checkResponseCache env (hashRequest env qry) context s))
               \<lparr>active := AList.update (hashRequest env qry) qry (active s)\<rparr>)
            (hashRequest env qry) ast context) = Some cd"
    and "ar_cacheMetadata (analyze env
            ((snd (checkResponseCache env (hashRequest env qry) context s))
               \<lparr>active := AList.update (hashRequest env qry) qry (active s)\<rparr>)
            (hashRequest env qry) ast context) = Some cm"
  shows "executorCalls (snd (query env this qry ast opts context s)) = executorCalls s"
proof -
  have "executorCalls (snd (query env this qry ast opts context s)) =
          executorCalls (snd (checkResponseCache env (hashRequest env qry) context s))"
    by (simp add: executorCalls_def analysed_query(2) [OF assms])
  then show ?thesis by simp
qed

text \<open>
  Claim C3. The response cache misses, no request for the fingerprint is active, and
  the analysis returns both data and metadata. Then the orchestrator calls \<^verbatim>\<open>set\<close> of the
  responses store under the fingerprint with the pair of the dehydrated metadata and
  the cached data, with the cache control printed by the \<^verbatim>\<open>"query"\<close> entry of the metadata,
  else (no such entry, or one that prints nothing) the default query directive; the
  store then holds that record unless \<^verbatim>\<open>set\<close> throws. The caller is resolved with the
  cached data, and the executor is not called.
\<close>

theorem analysed_query_written:
  assumes "fst (checkResponseCache env (hashRequest env qry) context s) = None"
    and "map_of (active s) (hashRequest env qry) = None"
    and "cachedData (analyze env
            ((snd (checkResponseCache env (hashRequest env qry) context s))
               \<lparr>active := AList.update (hashRequest env qry) qry (active s)\<rparr>)
            (hashRequest env qry) ast context) = Some cd"
    and "ar_cacheMetadata (analyze env
            ((snd (checkResponseCache env (hashRequest env qry) context s))
               \<lparr>active := AList.update (hashRequest env qry) qry (active s)\<rparr>)
            (hashRequest env qry) ast context) = Some cm"
  shows "fst (query env this qry ast opts context s) =
           Resolves
             \<lparr>rr_cacheMetadata =
                Some (if map_of cm ''query'' = None
                      then AList.update ''query''
                             (parseCacheControl env (dcc_query (defaultCacheControls this))) cm
                      else cm),
              rr_cachePromise = Some (Fulfilled ()),
              rr_data = Some cd,
              rr_queryHash = (if hashRequest env qry = [] then None
                              else Some (hashRequest env qry))\<rparr>
         \<and> trace (snd (query env this qry ast opts context s)) =
             trace (snd (checkResponseCache env (hashRequest env qry) context s))
               @ [CacheAnalyze (hashRequest env qry),
                  ResponsesSet (hashRequest env qry) (queryCacheControl env this cm)]
         \<and> executorCalls (snd (query env this qry ast opts context s)) = executorCalls s
         \<and> (storeFault env StoreSet (hashRequest env qry) = None \<longrightarrow>
              map_of (responses (snd (query env this qry ast opts context s))) (hashRequest env qry) =
                Some \<lparr>se_cacheability = parseCacheControl env (queryCacheControl env this cm),
                      se_value = \<lparr>rec_cacheMetadata = dehydrateCacheMetadata env cm, rec_data = cd\<rparr>,
                      se_tag = tag opts\<rparr>)
         \<and> queryCacheControl env this cm =
             (case map_of cm ''query'' of
                None \<Rightarrow> dcc_query (defaultCacheControls this)
              | Some c \<Rightarrow> if printCacheControl env c = [] then dcc_query (defaultCacheControls this)
                          else printCacheControl env c)"
proof -
  note q = analysed_query [OF assms, of this opts]
  have b: "executorCalls (snd (query env this qry ast opts context s)) = executorCalls s"
    by (rule analysed_query_calls [OF assms])
  have c: "storeFault env StoreSet (hashRequest env qry) = None \<longrightarrow>
              map_of (responses (snd (query env this qry ast opts context s))) (hashRequest env qry) =
                Some \<lparr>se_cacheability = parseCacheControl env (queryCacheControl env this cm),
                      se_value = \<lparr>rec_cacheMetadata = dehydrateCacheMetadata env cm, rec_data = cd\<rparr>,
                      se_tag = tag opts\<rparr>"
    by (simp add: q(3) update_conv')
  have d: "queryCacheControl env this cm =
             (case map_of cm ''query'' of
                None \<Rightarrow> dcc_query (defaultCacheControls this)
              | Some c \<Rightarrow> if printCacheControl env c = [] then dcc_query (defaultCacheControls this)
                          else printCacheControl env c)"
    by (simp add: queryCacheControl_def Let_def split: option.splits)
  from q(1) q(2) b c d show ?thesis by blast
qed

lemma analysed_fixture:
  "fst (checkResponseCache analysedCollaborators
          (hashRequest analysedCollaborators ''{ user { id } }'') exampleContext emptyCache) = None"
  "map_of (active emptyCache) (hashRequest analysedCollaborators ''{ user { id } }'') = None"
  "cachedData (analyze analysedCollaborators
       ((snd (checkResponseCache analysedCollaborators
                (hashRequest analysedCollaborators ''{ user { id } }'') exampleContext emptyCache))
          \<lparr>active := AList.update (hashRequest analysedCollaborators ''{ user { id } }'')
                       ''{ user { id } }'' (active emptyCache)\<rparr>)
       (hashRequest analysedCollaborators ''{ user { id } }'') exampleAST exampleContext)
     = Some (JObject [(''user'', JObject [(''id'', JString ''1'')])])"
  "ar_cacheMetadata (analyze analysedCollaborators
       ((snd (checkResponseCache analysedCollaborators
                (hashRequest analysedCollaborators ''{ user { id } }'') exampleContext emptyCache))
          \<lparr>active := AList.update (hashRequest analysedCollaborators ''{ user { id } }'')
                       ''{ user { id } }'' (active emptyCache)\<rparr>)
       (hashRequest analysedCollaborators ''{ user { id } }'') exampleAST exampleContext)
     = Some [(''query'', ''max-age=30''), (''user'', ''max-age=30'')]"
  by (simp_all add: analysedCollaborators_def exampleCollaborators_def checkResponseCache_def
      emptyCache_def emit_def)

theorem analysed_query_written_witness:
  "fst (checkResponseCache analysedCollaborators
          (hashRequest analysedCollaborators ''{ user { id } }'') exampleContext emptyCache) = None
   \<and> map_of (active emptyCache) (hashRequest analysedCollaborators ''{ user { id } }'') = None
   \<and> fst (query analysedCollaborators exampleClient ''{ user { id } }'' exampleAST exampleOptions
             exampleContext emptyCache) =
       Resolves \<lparr>rr_cacheMetadata = Some [(''query'', ''max-age=30''), (''user'', ''max-age=30'')],
                 rr_cachePromise = Some (Fulfilled ()),
                 rr_data = Some (JObject [(''user'', JObject [(''id'', JString ''1'')])]),
                 rr_queryHash = Some ''#{ user { id } }''\<rparr>
   \<and> trace (snd (query analysedCollaborators exampleClient ''{ user { id } }'' exampleAST
                   exampleOptions exampleContext emptyCache)) =
       [ResponsesHas ''#{ user { id } }'', CacheAnalyze ''#{ user { id } }'',
        ResponsesSet ''#{ user { id } }'' ''max-age=30'']
   \<and> executorCalls (snd (query analysedCollaborators exampleClient ''{ user { id } }'' exampleAST
                   exampleOptions exampleContext emptyCache)) = 0
   \<and> map_of (responses (snd (query analysedCollaborators exampleClient ''{ user { id } }''
                   exampleAST exampleOptions exampleContext emptyCache))) ''#{ user { id } }'' =
       Some \<lparr>se_cacheability = ''max-age=30'',
             se_value = \<lparr>rec_cacheMetadata = [(''query'', ''max-age=30''), (''user'', ''max-age=30'')],
                         rec_data = JObject [(''user'', JObject [(''id'', JString ''1'')])]\<rparr>,
             se_tag = None\<rparr>"
proof -
  note w = analysed_query_written [OF analysed_fixture(1) analysed_fixture(2)
      analysed_fixture(3) analysed_fixture(4), of exampleClient exampleOptions]
  have c: "hashRequest analysedCollaborators ''{ user { id } }'' = ''#{ user { id } }''"
    "storeFault analysedCollaborators StoreSet ''#{ user { id } }'' = None"
    "queryCacheControl analysedCollaborators exampleClient
       [(''query'', ''max-age=30''), (''user'', ''max-age=30'')] = ''max-age=30''"
    "parseCacheControl analysedCollaborators ''max-age=30'' = ''max-age=30''"
    "dehydrateCacheMetadata analysedCollaborators
       [(''query'', ''max-age=30''), (''user'', ''max-age=30'')]
       = [(''query'', ''max-age=30''), (''user'', ''max-age=30'')]"
    "tag exampleOptions = None"
    "executorCalls emptyCache = 0"
    "trace (snd (checkResponseCache analysedCollaborators ''#{ user { id } }'' exampleContext
                   emptyCache)) = [ResponsesHas ''#{ user { id } }'']"
    by (simp_all add: analysedCollaborators_def exampleCollaborators_def queryCacheControl_def
        exampleOptions_def executorCalls_def emptyCache_def checkResponseCache_def emit_def)
  have m: "map_of [(''query'', ''max-age=30''), (''user'', ''max-age=30'')] ''query'' \<noteq> None"
    by simp
  show ?thesis
    using w analysed_fixture(1,2) m by (simp add: c)
qed


text \<open>
  Claim C6, as the code has it. When the analysis rebuilds the whole response and the
  write of the response record throws, the request still resolves with the cached data,
  and the cache promise is resolved: the error is caught and dropped, and \<^verbatim>\<open>finally\<close>
  resolves the deferred.
\<close>

theorem analysed_query_store_fault:
  assumes "fst (checkResponseCache env (hashRequest env qry) context s) = None"
    and "map_of (active s) (hashRequest env qry) = None"
    and "cachedData (analyze env
            ((snd (checkResponseCache env (hashRequest env qry) context s))
               \<lparr>active := AList.update (hashRequest env qry) qry (active s)\<rparr>)
            (hashRequest env qry) ast context) = Some cd"
    and "ar_cacheMetadata (analyze env
            ((snd (checkResponseCache env (hashRequest env qry) context s))
               \<lparr>active := AList.update (hashRequest env qry) qry (active s)\<rparr>)
            (hashRequest env qry) ast context) = Some cm"
    and "storeFault env StoreSet (hashRequest env qry) = Some err"
  shows "fst (query env this qry ast opts context s) =
           Resolves
             \<lparr>rr_cacheMetadata =
                Some (if map_of cm ''query'' = None
                      then AList.update ''query''
                             (parseCacheControl env (dcc_query (defaultCacheControls this))) cm
                      else cm),
              rr_cachePromise = Some (Fulfilled ()),
              rr_data = Some cd,
              rr_queryHash = (if hashRequest env qry = [] then None
                              else Some (hashRequest env qry))\<rparr>"
  using analysed_query(1) [OF assms(1-4), of this opts] by simp

lemma faulty_fixture:
  "fst (checkResponseCache faultyCollaborators
          (hashRequest faultyCollaborators ''{ user { id } }'') exampleContext emptyCache) = None"
  "map_of (active emptyCache) (hashRequest faultyCollaborators ''{ user { id } }'') = None"
  "cachedData (analyze faultyCollaborators
       ((snd (checkResponseCache faultyCollaborators
                (hashRequest faultyCollaborators ''{ user { id } }'') exampleContext emptyCache))
          \<lparr>active := AList.update (hashRequest faultyCollaborators ''{ user { id } }'')
                       ''{ user { id } }'' (active emptyCache)\<rparr>)
       (hashRequest faultyCollaborators ''{ user { id } }'') exampleAST exampleContext)
     = Some (JObject [(''user'', JObject [(''id'', JString ''1'')])])"
  "ar_cacheMetadata (analyze faultyCollaborators
       ((snd (checkResponseCache faultyCollaborators
                (hashRequest faultyCollaborators ''{ user { id } }'') exampleContext emptyCache))
          \<lparr>active := AList.update (hashRequest faultyCollaborators ''{ user { id } }'')
                       ''{ user { id } }'' (active emptyCache)\<rparr>)
       (hashRequest faultyCollaborators ''{ user { id } }'') exampleAST exampleContext)
     = Some [(''query'', ''max-age=30''), (''user'', ''max-age=30'')]"
  "storeFault faultyCollaborators StoreSet (hashRequest faultyCollaborators ''{ user { id } }'')
     = Some (Error ''QuotaExceededError'')"
  by (simp_all add: faultyCollaborators_def analysedCollaborators_def exampleCollaborators_def
      checkResponseCache_def emptyCache_def emit_def)

theorem analysed_query_store_fault_witness:
  "fst (checkResponseCache faultyCollaborators
          (hashRequest faultyCollaborators ''{ user { id } }'') exampleContext emptyCache) = None
   \<and> map_of (active emptyCache) (hashRequest faultyCollaborators ''{ user { id } }'') = None
   \<and> storeFault faultyCollaborators StoreSet (hashRequest faultyCollaborators ''{ user { id } }'')
       = Some (Error ''QuotaExceededError'')
   \<and> fst (query faultyCollaborators exampleClient ''{ user { id } }'' exampleAST exampleOptions
             exampleContext emptyCache) =
       Resolves \<lparr>rr_cacheMetadata = Some [(''query'', ''max-age=30''), (''user'', ''max-age=30'')],
                 rr_cachePromise = Some (Fulfilled ()),
                 rr_data = Some (JObject [(''user'', JObject [(''id'', JString ''1'')])]),
                 rr_queryHash = Some ''#{ user { id } }''\<rparr>"
proof -
  note w = analysed_query_store_fault [OF faulty_fixture(1) faulty_fixture(2) faulty_fixture(3)
      faulty_fixture(4) faulty_fixture(5), of exampleClient exampleOptions]
  have c: "hashRequest faultyCollaborators ''{ user { id } }'' = ''#{ user { id } }''"
    by (simp add: faultyCollaborators_def analysedCollaborators_def exampleCollaborators_def)
  have m: "map_of [(''query'', ''max-age=30''), (''user'', ''max-age=30'')] ''query'' \<noteq> None"
    by simp
  show ?thesis
    using w faulty_fixture(1,2,5) m by (simp add: c)
qed

text \<open>
  The claim as it is written has the cache promise rejected. With a store whose \<^verbatim>\<open>set\<close>
  throws, the promise on the result is fulfilled.
\<close>

theorem cache_promise_rejects_counterexample:
  "storeFault faultyCollaborators StoreSet (hashRequest faultyCollaborators ''{ user { id } }'')
     = Some (Error ''QuotaExceededError'')
   \<and> fst (query faultyCollaborators exampleClient ''{ user { id } }'' exampleAST exampleOptions
             exampleContext emptyCache) =
       Resolves \<lparr>rr_cacheMetadata = Some [(''query'', ''max-age=30''), (''user'', ''max-age=30'')],
                 rr_cachePromise = Some (Fulfilled ()),
                 rr_data = Some (JObject [(''user'', JObject [(''id'', JString ''1'')])]),
                 rr_queryHash = Some ''#{ user { id } }''\<rparr>
   \<and> Some (Fulfilled ()) \<noteq> Some (Rejected (Error ''QuotaExceededError''))"
  by (simp add: query_def queryBegin_def checkResponseCache_def resolve_def Let_def truthy_def
      defaultCacheControl_def emit_def responsesSet_def queryCacheControl_def
      resolvePendingRequests_def faultyCollaborators_def analysedCollaborators_def
      exampleCollaborators_def exampleClient_def exampleOptions_def emptyCache_def)

section \<open>Mutations and the response cache\<close>

lemma fetch_fields [simp]:
  "responses (snd (fetch env req ast opts context s)) = responses s"
  "dataEntities (snd (fetch env req ast opts context s)) = dataEntities s"
  "queryPaths (snd (fetch env req ast opts context s)) = queryPaths s"
  "active (snd (fetch env req ast opts context s)) = active s"
  "pending (snd (fetch env req ast opts context s)) = pending s"
  "promises (snd (fetch env req ast opts context s)) = promises s"
  "trace (snd (fetch env req ast opts context s)) = trace s @ [ExecutorResolve req]"
  by (simp_all add: fetch_def Let_def split: sum.splits option.splits)

lemma writeTiers_fields [simp]:
  "responses (writeTiers w s) = responses s"
  "active (writeTiers w s) = active s"
  "pending (writeTiers w s) = pending s"
  "promises (writeTiers w s) = promises s"
  "trace (writeTiers w s) = trace s"
  by (simp_all add: writeTiers_def)

lemma resolveMutation_fields [simp]:
  "responses (snd (resolveMutation env ast dat cm tg context s)) = responses s"
  "trace (snd (resolveMutation env ast dat cm tg context s)) = trace s @ [CacheResolveMutation]"
  by (simp_all add: resolveMutation_def Let_def)

lemma mutation_responses:
  "responses (snd (mutation env this mut ast opts context s)) = responses s"
  by (simp add: mutation_def Let_def case_prod_beta split: sum.splits prod.splits)

lemma mutation_trace:
  "trace (snd (mutation env this mut ast opts context s)) =
     trace s @ (case fst (fetch env (Some mut) (Some ast) opts context s) of
                  Inl e \<Rightarrow> [ExecutorResolve (Some mut)]
                | Inr f \<Rightarrow> [ExecutorResolve (Some mut), CacheResolveMutation])"
  by (simp add: mutation_def Let_def case_prod_beta split: sum.splits prod.splits)

lemma mutation_example:
  "mutation mutatingCollaborators exampleClient mutationText mutationAST exampleOptions
     (exampleContext\<lparr>operation := ''mutation''\<rparr>) hitCache =
   (Resolves
      \<lparr>rr_cacheMetadata = Some [(''query'', ''max-age=0, s-maxage=0, no-cache, no-store'')],
       rr_cachePromise = Some (Fulfilled ()),
       rr_data = Some (JObject [(''updateUser'', JObject [(''id'', JString ''1''),
                                                          (''name'', JString ''Grace'')])]),
       rr_queryHash = None\<rparr>,
    hitCache\<lparr>dataEntities := [(''User:1'', JObject [(''name'', JString ''Grace'')])],
             queryPaths := [(''path'', JString ''User:1'')],
             trace := [ExecutorResolve (Some mutationText), CacheResolveMutation]\<rparr>)"
  by (simp add: mutation_def fetch_def resolveMutation_def writeTiers_def resolve_def emit_def
      Let_def truthy_def defaultCacheControl_def deferredPromise_def mutatingCollaborators_def
      exampleCollaborators_def exampleClient_def exampleOptions_def exampleContext_def
      initialDefaultCacheControls_def hitCache_def)

lemma returnResult_fields [simp]:
  "responses (snd (returnResult opts result s)) = responses s"
  "dataEntities (snd (returnResult opts result s)) = dataEntities s"
  "queryPaths (snd (returnResult opts result s)) = queryPaths s"
  "active (snd (returnResult opts result s)) = active s"
  "pending (snd (returnResult opts result s)) = pending s"
  "promises (snd (returnResult opts result s)) = promises s"
  by (simp_all add: returnResult_def
      split: async.splits RequestResult.splits option.splits promise.splits)

lemma returnResult_stripped:
  "fst (returnResult opts result s) = Resolves (Result r) \<Longrightarrow> rr_cachePromise r = None"
  by (auto simp: returnResult_def
      split: async.splits RequestResult.splits option.splits promise.splits if_splits)

lemma request'_single:
  assumes "updateRequest env qry opts context = Inr upd"
    and "validate env (schema this) (upd_ast upd) = []"
    and "getOperationDefinitions (upd_ast upd) = [od]"
  shows "request' env this qry opts context s =
           returnResult opts
             (fst (resolveRequestOperation env this (upd_query upd) (upd_ast upd) opts
                     (operationContext context od) s))
             (snd (resolveRequestOperation env this (upd_query upd) (upd_ast upd) opts
                     (operationContext context od) s))"
  using assms by (simp add: request'_def Let_def case_prod_beta)

lemma request'_stripped:
  "fst (request' env this qry opts context s) = Resolves (Result r) \<Longrightarrow> rr_cachePromise r = None"
  by (auto simp: request'_def Let_def case_prod_beta returnResult_stripped
      split: sum.splits list.splits if_splits)

lemma request'_mutation_responses:
  assumes "updateRequest env qry opts context = Inr upd"
    and "validate env (schema this) (upd_ast upd) = []"
    and "getOperationDefinitions (upd_ast upd) = [od]"
    and "od_operation od = ''mutation''"
  shows "responses (snd (request' env this qry opts context s)) = responses s"
  using assms(4)
  by (simp add: request'_single [OF assms(1-3)] resolveRequestOperation_def operationContext_def
      case_prod_beta mutation_responses)

lemma responses_observables:
  assumes "responses s' = responses s"
  shows "getResponseCacheEntry env key s' = getResponseCacheEntry env key s"
    and "getResponseCacheSize env s' = getResponseCacheSize env s"
  using assms
  by (simp_all add: getResponseCacheEntry_def getResponseCacheSize_def split: option.splits)

lemma mutating_fixture:
  "updateRequest mutatingCollaborators mutationText opts exampleContext = Inr mutationUpdate"
  "validate mutatingCollaborators (schema exampleClient) (upd_ast mutationUpdate) = []"
  "getOperationDefinitions (upd_ast mutationUpdate) = [mutationOD]"
  "od_operation mutationOD = ''mutation''"
  by (simp_all add: mutatingCollaborators_def exampleCollaborators_def mutationUpdate_def
      mutationAST_def mutationOD_def getOperationDefinitions_def)

text \<open>
  Claim C4. A mutation leaves the responses store as it was: what
  \<^verbatim>\<open>getResponseCacheEntry\<close> and \<^verbatim>\<open>getResponseCacheSize\<close> show is the same before and after
  \<^verbatim>\<open>_mutation\<close>, and the same before and after a whole request whose operation is a
  mutation. The calls \<^verbatim>\<open>_mutation\<close> makes are the executor's \<^verbatim>\<open>resolve\<close> and, when that
  succeeds, \<^verbatim>\<open>resolveMutation\<close>; no call of the responses store is among them. The
  data-entities and query-paths are free to change (\<open>mutation_example\<close>).
\<close>

theorem mutation_frame:
  "responses (snd (mutation env this mut ast opts context s)) = responses s
   \<and> getResponseCacheEntry env key (snd (mutation env this mut ast opts context s))
       = getResponseCacheEntry env key s
   \<and> getResponseCacheSize env (snd (mutation env this mut ast opts context s))
       = getResponseCacheSize env s
   \<and> (trace (snd (mutation env this mut ast opts context s))
         = trace s @ [ExecutorResolve (Some mut)]
       \<or> trace (snd (mutation env this mut ast opts context s))
         = trace s @ [ExecutorResolve (Some mut), CacheResolveMutation])
   \<and> (updateRequest env qry opts context = Inr upd
        \<and> validate env (schema this) (upd_ast upd) = []
        \<and> getOperationDefinitions (upd_ast upd) = [od]
        \<and> od_operation od = ''mutation''
      \<longrightarrow> responses (snd (request' env this qry opts context s)) = responses s
          \<and> getResponseCacheEntry env key (snd (request' env this qry opts context s))
              = getResponseCacheEntry env key s
          \<and> getResponseCacheSize env (snd (request' env this qry opts context s))
              = getResponseCacheSize env s)"
proof -
  have a: "responses (snd (mutation env this mut ast opts context s)) = responses s"
    by (rule mutation_responses)
  have t: "trace (snd (mutation env this mut ast opts context s))
         = trace s @ [ExecutorResolve (Some mut)]
       \<or> trace (snd (mutation env this mut ast opts context s))
         = trace s @ [ExecutorResolve (Some mut), CacheResolveMutation]"
    by (simp add: mutation_trace split: sum.splits)
  have r: "updateRequest env qry opts context = Inr upd
        \<and> validate env (schema this) (upd_ast upd) = []
        \<and> getOperationDefinitions (upd_ast upd) = [od]
        \<and> od_operation od = ''mutation''
      \<longrightarrow> responses (snd (request' env this qry opts context s)) = responses s
          \<and> getResponseCacheEntry env key (snd (request' env this qry opts context s))
              = getResponseCacheEntry env key s
          \<and> getResponseCacheSize env (snd (request' env this qry opts context s))
              = getResponseCacheSize env s"
    using request'_mutation_responses responses_observables by blast
  from a responses_observables [OF a] t r show ?thesis by (intro conjI)
qed

theorem mutation_frame_witness:
  "updateRequest mutatingCollaborators mutationText exampleOptions exampleContext = Inr mutationUpdate
   \<and> validate mutatingCollaborators (schema exampleClient) (upd_ast mutationUpdate) = []
   \<and> getOperationDefinitions (upd_ast mutationUpdate) = [mutationOD]
   \<and> od_operation mutationOD = ''mutation''
   \<and> responses (snd (request' mutatingCollaborators exampleClient mutationText exampleOptions
                       exampleContext hitCache)) = [(''#{ user { id name } }'', storedEntry)]
   \<and> getResponseCacheSize mutatingCollaborators
        (snd (request' mutatingCollaborators exampleClient mutationText exampleOptions
                exampleContext hitCache)) = Resolves 1
   \<and> dataEntities (snd (mutation mutatingCollaborators exampleClient mutationText mutationAST
                          exampleOptions (exampleContext\<lparr>operation := ''mutation''\<rparr>) hitCache))
      = [(''User:1'', JObject [(''name'', JString ''Grace'')])]"
proof -
  have c: "responses hitCache = [(''#{ user { id name } }'', storedEntry)]"
    "getResponseCacheSize mutatingCollaborators hitCache = Resolves 1"
    by (simp_all add: hitCache_def getResponseCacheSize_def mutatingCollaborators_def
        exampleCollaborators_def)
  show ?thesis
    using mutation_frame [of mutatingCollaborators exampleClient mutationText mutationAST
        exampleOptions "exampleContext" hitCache "[]" mutationText mutationUpdate mutationOD]
      mutating_fixture(1) [of exampleOptions] mutating_fixture(2,3,4) mutation_example
    by (simp add: c)
qed

section \<open>The cache promise\<close>

lemma mutation_cachePromise:
  "fst (mutation env this mut ast opts context s) = Resolves r \<Longrightarrow> rr_cachePromise r \<noteq> None"
  by (auto simp: mutation_def Let_def case_prod_beta resolve_result
      split: sum.splits prod.splits)

lemma queryFetched_cachePromise:
  "fst (queryFetched env this h uq ua filt opts context (Inr fetched) s) = Resolves r
     \<Longrightarrow> rr_cachePromise r \<noteq> None"
  by (auto simp: queryFetched_def Let_def case_prod_beta resolve_result)

text \<open>
  Claim C5, as the code has it. \<^verbatim>\<open>_mutation\<close>, and \<^verbatim>\<open>_query\<close> after a fetch, put a cache
  promise on their resolve result. \<^verbatim>\<open>_request\<close> awaits it before returning exactly when
  \<^verbatim>\<open>opts.awaitDataCached\<close> is set and the result has one, and deletes it from the result
  in either case: no result that \<^verbatim>\<open>_request\<close> returns carries a cache promise.
\<close>

theorem cache_promise_stripped:
  assumes "updateRequest env qry opts context = Inr upd"
    and "validate env (schema this) (upd_ast upd) = []"
    and "getOperationDefinitions (upd_ast upd) = [od]"
    and "resolveRequestOperation env this (upd_query upd) (upd_ast upd) opts
           (operationContext context od) s = (Resolves (Result rr), s1)"
  shows "request' env this qry opts context s =
           (if awaitDataCached opts \<and> rr_cachePromise rr \<noteq> None
            then (case the (rr_cachePromise rr) of
                    Fulfilled u \<Rightarrow>
                      (Resolves (Result (rr\<lparr>rr_cachePromise := None\<rparr>)), emit AwaitCachePromise s1)
                  | Rejected e \<Rightarrow> (Rejects e, emit AwaitCachePromise s1)
                  | Pending \<Rightarrow> (Hangs, emit AwaitCachePromise s1))
            else (Resolves (Result (rr\<lparr>rr_cachePromise := None\<rparr>)), s1))
         \<and> (\<forall>r. fst (request' env this qry opts context s) = Resolves (Result r)
                \<longrightarrow> rr_cachePromise r = None)
         \<and> (\<forall>r. fst (mutation env this mut ast opts context s) = Resolves r
                \<longrightarrow> rr_cachePromise r \<noteq> None)
         \<and> (\<forall>r. fst (queryFetched env this h uq ua filt opts context (Inr fetched) s) = Resolves r
                \<longrightarrow> rr_cachePromise r \<noteq> None)"
proof -
  have "request' env this qry opts context s = returnResult opts (Resolves (Result rr)) s1"
    using request'_single [OF assms(1-3), of s] assms(4) by simp
  then have a: "request' env this qry opts context s =
           (if awaitDataCached opts \<and> rr_cachePromise rr \<noteq> None
            then (case the (rr_cachePromise rr) of
                    Fulfilled u \<Rightarrow>
                      (Resolves (Result (rr\<lparr>rr_cachePromise := None\<rparr>)), emit AwaitCachePromise s1)
                  | Rejected e \<Rightarrow> (Rejects e, emit AwaitCachePromise s1)
                  | Pending \<Rightarrow> (Hangs, emit AwaitCachePromise s1))
            else (Resolves (Result (rr\<lparr>rr_cachePromise := None\<rparr>)), s1))"
    by (auto simp: returnResult_def split: option.splits promise.splits)
  have b: "\<forall>r. fst (request' env this qry opts context s) = Resolves (Result r)
                \<longrightarrow> rr_cachePromise r = None"
    by (intro allI impI) (rule request'_stripped)
  have c: "\<forall>r. fst (mutation env this mut ast opts context s) = Resolves r
                \<longrightarrow> rr_cachePromise r \<noteq> None"
    by (intro allI impI) (rule mutation_cachePromise)
  have d: "\<forall>r. fst (queryFetched env this h uq ua filt opts context (Inr fetched) s) = Resolves r
                \<longrightarrow> rr_cachePromise r \<noteq> None"
    by (intro allI impI) (rule queryFetched_cachePromise)
  from a b c d show ?thesis by (intro conjI)
qed

lemma mutating_operation:
  "resolveRequestOperation mutatingCollaborators exampleClient (upd_query mutationUpdate)
     (upd_ast mutationUpdate) awaitingOptions (operationContext exampleContext mutationOD) emptyCache =
   (Resolves (Result
      \<lparr>rr_cacheMetadata = Some [(''query'', ''max-age=0, s-maxage=0, no-cache, no-store'')],
       rr_cachePromise = Some (Fulfilled ()),
       rr_data = Some (JObject [(''updateUser'', JObject [(''id'', JString ''1''),
                                                          (''name'', JString ''Grace'')])]),
       rr_queryHash = None\<rparr>),
    emptyCache\<lparr>dataEntities := [(''User:1'', JObject [(''name'', JString ''Grace'')])],
               queryPaths := [(''path'', JString ''User:1'')],
               trace := [ExecutorResolve (Some mutationText), CacheResolveMutation]\<rparr>)"
  by (simp add: resolveRequestOperation_def operationContext_def mutationOD_def mutationUpdate_def
      mutation_def fetch_def resolveMutation_def writeTiers_def resolve_def emit_def
      Let_def truthy_def defaultCacheControl_def deferredPromise_def mutatingCollaborators_def
      exampleCollaborators_def exampleClient_def awaitingOptions_def exampleOptions_def
      exampleContext_def initialDefaultCacheControls_def emptyCache_def)

theorem cache_promise_stripped_witness:
  "updateRequest mutatingCollaborators mutationText awaitingOptions exampleContext = Inr mutationUpdate
   \<and> validate mutatingCollaborators (schema exampleClient) (upd_ast mutationUpdate) = []
   \<and> getOperationDefinitions (upd_ast mutationUpdate) = [mutationOD]
   \<and> awaitDataCached awaitingOptions
   \<and> request' mutatingCollaborators exampleClient mutationText awaitingOptions exampleContext
        emptyCache =
      (Resolves (Result
         \<lparr>rr_cacheMetadata = Some [(''query'', ''max-age=0, s-maxage=0, no-cache, no-store'')],
          rr_cachePromise = None,
          rr_data = Some (JObject [(''updateUser'', JObject [(''id'', JString ''1''),
                                                             (''name'', JString ''Grace'')])]),
          rr_queryHash = None\<rparr>),
       emptyCache\<lparr>dataEntities := [(''User:1'', JObject [(''name'', JString ''Grace'')])],
                  queryPaths := [(''path'', JString ''User:1'')],
                  trace := [ExecutorResolve (Some mutationText), CacheResolveMutation,
                            AwaitCachePromise]\<rparr>)"
proof -
  note w = cache_promise_stripped [OF mutating_fixture(1) mutating_fixture(2) mutating_fixture(3)
      mutating_operation]
  have a: "awaitDataCached awaitingOptions"
    by (simp add: awaitingOptions_def)
  show ?thesis
    using w mutating_fixture(1) [of awaitingOptions] mutating_fixture(2,3) a
    by (simp add: emit_def emptyCache_def)
qed

text \<open>
  The claim as it is written lets the returned result keep the cache promise when
  \<^verbatim>\<open>awaitDataCached\<close> is not set. The result of \<^verbatim>\<open>_mutation\<close> has one; the result the request
  returns has none.
\<close>

theorem cache_promise_kept_counterexample:
  "\<not> awaitDataCached exampleOptions
   \<and> fst (mutation mutatingCollaborators exampleClient mutationText mutationAST exampleOptions
            (operationContext exampleContext mutationOD) emptyCache) =
      Resolves
         \<lparr>rr_cacheMetadata = Some [(''query'', ''max-age=0, s-maxage=0, no-cache, no-store'')],
          rr_cachePromise = Some (Fulfilled ()),
          rr_data = Some (JObject [(''updateUser'', JObject [(''id'', JString ''1''),
                                                             (''name'', JString ''Grace'')])]),
          rr_queryHash = None\<rparr>
   \<and> fst (request' mutatingCollaborators exampleClient mutationText exampleOptions exampleContext
            emptyCache) =
      Resolves (Result
         \<lparr>rr_cacheMetadata = Some [(''query'', ''max-age=0, s-maxage=0, no-cache, no-store'')],
          rr_cachePromise = None,
          rr_data = Some (JObject [(''updateUser'', JObject [(''id'', JString ''1''),
                                                             (''name'', JString ''Grace'')])]),
          rr_queryHash = None\<rparr>)"
  by (simp add: request'_def returnResult_def getOperationDefinitions_def
      resolveRequestOperation_def operationContext_def mutationOD_def mutationUpdate_def
      mutationAST_def mutation_def fetch_def resolveMutation_def writeTiers_def resolve_def emit_def
      Let_def truthy_def defaultCacheControl_def deferredPromise_def mutatingCollaborators_def
      exampleCollaborators_def exampleClient_def exampleOptions_def
      exampleContext_def initialDefaultCacheControls_def emptyCache_def)

section \<open>The default entry for the whole response\<close>

lemma resolveSubscription_fst:
  "fst (resolveSubscription env ast dat cm tg context s) =
     normalise env OpSubscription s (Some ast) dat cm context"
  by (simp add: resolveSubscription_def Let_def)

lemma resolveMutation_fst:
  "fst (resolveMutation env ast dat cm tg context s) =
     normalise env OpMutation s (Some ast) dat cm context"
  by (simp add: resolveMutation_def Let_def)

lemma mutation_default_entry:
  assumes "fst (fetch env (Some mut) (Some ast) opts context s) = Inr fetched"
    and "map_of (tw_cacheMetadata
            (fst (resolveMutation env ast (fr_data fetched)
                    (createCacheMetadata env (fr_cacheMetadata fetched) (Some (fr_headers fetched)))
                    (tag opts) context (snd (fetch env (Some mut) (Some ast) opts context s)))))
           ''query'' = None"
  shows "\<exists>r. fst (mutation env this mut ast opts context s) = Resolves r
           \<and> rr_cacheMetadata r =
               Some (AList.update ''query''
                       (parseCacheControl env (dcc_mutation (defaultCacheControls this)))
                       (tw_cacheMetadata
                          (fst (resolveMutation env ast (fr_data fetched)
                                  (createCacheMetadata env (fr_cacheMetadata fetched)
                                     (Some (fr_headers fetched)))
                                  (tag opts) context
                                  (snd (fetch env (Some mut) (Some ast) opts context s))))))"
proof -
  obtain f s1 where fe: "fetch env (Some mut) (Some ast) opts context s = (f, s1)"
    by (cases "fetch env (Some mut) (Some ast) opts context s")
  with assms(1) have f: "f = Inr fetched" by simp
  show ?thesis
    using assms(2) fe f
    by (simp add: mutation_def Let_def case_prod_beta resolve_result defaultCacheControl_def)
qed

lemma subscriber_default_entry:
  assumes "ex_errors result = None \<or> ex_errors result = Some []"
    and "\<not> (awaitDataCached opts
             \<and> \<not> tw_cacheResolve
                    (fst (resolveSubscription env ast (ex_data result)
                            (createCacheMetadata env (ex_cacheMetadata result) None)
                            (tag opts) context s)))"
    and "map_of (tw_cacheMetadata
            (fst (resolveSubscription env ast (ex_data result)
                    (createCacheMetadata env (ex_cacheMetadata result) None)
                    (tag opts) context s))) ''query'' = None"
  shows "\<exists>r. fst (resolveSubscriber env this ast (PlainObject result) opts context s) = Resolves r
           \<and> rr_cacheMetadata r =
               Some (AList.update ''query''
                       (parseCacheControl env (dcc_subscription (defaultCacheControls this)))
                       (tw_cacheMetadata
                          (fst (resolveSubscription env ast (ex_data result)
                                  (createCacheMetadata env (ex_cacheMetadata result) None)
                                  (tag opts) context s))))"
  using assms
  by (auto simp: resolveSubscriber_def Let_def case_prod_beta resolve_result
      defaultCacheControl_def)

lemma constructor_defaults:
  assumes "constructor env oid (PlainArgs a) = Inr this"
    and "arg_defaultCacheControls a = None"
  shows "defaultCacheControls this = initialDefaultCacheControls"
  using assms
  by (auto simp: constructor_def Let_def split: if_splits sum.splits)

lemma constructor_example:
  "constructor exampleCollaborators 0 (PlainArgs exampleArgs) = Inr exampleClient"
  by (simp add: constructor_def exampleCollaborators_def exampleArgs_def exampleClient_def
      exampleIntrospection_def Let_def)

text \<open>
  Claim C7, as the code has it. When the metadata that \<^verbatim>\<open>resolveMutation\<close> returns has
  no entry \<^verbatim>\<open>"query"\<close>, the result of the mutation has that metadata with an entry
  \<^verbatim>\<open>"query"\<close> parsed from the client's default mutation directive; likewise for a
  subscription message and the default subscription directive. For a client made
  without \<^verbatim>\<open>defaultCacheControls\<close> both directives are
  \<^verbatim>\<open>max-age=0, s-maxage=0, no-cache, no-store\<close>.
\<close>

theorem default_query_entry:
  "(fst (fetch env (Some mut) (Some ast) opts context s) = Inr fetched
      \<and> map_of (tw_cacheMetadata
            (fst (resolveMutation env ast (fr_data fetched)
                    (createCacheMetadata env (fr_cacheMetadata fetched) (Some (fr_headers fetched)))
                    (tag opts) context (snd (fetch env (Some mut) (Some ast) opts context s)))))
           ''query'' = None
    \<longrightarrow> (\<exists>r. fst (mutation env this mut ast opts context s) = Resolves r
           \<and> rr_cacheMetadata r =
               Some (AList.update ''query''
                       (parseCacheControl env (dcc_mutation (defaultCacheControls this)))
                       (tw_cacheMetadata
                          (fst (resolveMutation env ast (fr_data fetched)
                                  (createCacheMetadata env (fr_cacheMetadata fetched)
                                     (Some (fr_headers fetched)))
                                  (tag opts) context
                                  (snd (fetch env (Some mut) (Some ast) opts context s))))))))
   \<and> ((ex_errors result = None \<or> ex_errors result = Some [])
      \<and> \<not> (awaitDataCached opts
             \<and> \<not> tw_cacheResolve
                    (fst (resolveSubscription env ast (ex_data result)
                            (createCacheMetadata env (ex_cacheMetadata result) None)
                            (tag opts) context s)))
      \<and> map_of (tw_cacheMetadata
            (fst (resolveSubscription env ast (ex_data result)
                    (createCacheMetadata env (ex_cacheMetadata result) None)
                    (tag opts) context s))) ''query'' = None
    \<longrightarrow> (\<exists>r. fst (resolveSubscriber env this ast (PlainObject result) opts context s) = Resolves r
           \<and> rr_cacheMetadata r =
               Some (AList.update ''query''
                       (parseCacheControl env (dcc_subscription (defaultCacheControls this)))
                       (tw_cacheMetadata
                          (fst (resolveSubscription env ast (ex_data result)
                                  (createCacheMetadata env (ex_cacheMetadata result) None)
                                  (tag opts) context s))))))
   \<and> (constructor env oid (PlainArgs a) = Inr made \<and> arg_defaultCacheControls a = None
    \<longrightarrow> dcc_mutation (defaultCacheControls made) = ''max-age=0, s-maxage=0, no-cache, no-store''
        \<and> dcc_subscription (defaultCacheControls made)
            = ''max-age=0, s-maxage=0, no-cache, no-store'')"
proof (intro conjI impI)
  assume "fst (fetch env (Some mut) (Some ast) opts context s) = Inr fetched
      \<and> map_of (tw_cacheMetadata
            (fst (resolveMutation env ast (fr_data fetched)
                    (createCacheMetadata env (fr_cacheMetadata fetched) (Some (fr_headers fetched)))
                    (tag opts) context (snd (fetch env (Some mut) (Some ast) opts context s)))))
           ''query'' = None"
  then show "\<exists>r. fst (mutation env this mut ast opts context s) = Resolves r
           \<and> rr_cacheMetadata r =
               Some (AList.update ''query''
                       (parseCacheControl env (dcc_mutation (defaultCacheControls this)))
                       (tw_cacheMetadata
                          (fst (resolveMutation env ast (fr_data fetched)
                                  (createCacheMetadata env (fr_cacheMetadata fetched)
                                     (Some (fr_headers fetched)))
                                  (tag opts) context
                                  (snd (fetch env (Some mut) (Some ast) opts context s))))))"
    using mutation_default_entry by blast
next
  assume "(ex_errors result = None \<or> ex_errors result = Some [])
      \<and> \<not> (awaitDataCached opts
             \<and> \<not> tw_cacheResolve
                    (fst (resolveSubscription env ast (ex_data result)
                            (createCacheMetadata env (ex_cacheMetadata result) None)
                            (tag opts) context s)))
      \<and> map_of (tw_cacheMetadata
            (fst (resolveSubscription env ast (ex_data result)
                    (createCacheMetadata env (ex_cacheMetadata result) None)
                    (tag opts) context s))) ''query'' = None"
  then show "\<exists>r. fst (resolveSubscriber env this ast (PlainObject result) opts context s) = Resolves r
           \<and> rr_cacheMetadata r =
               Some (AList.update ''query''
                       (parseCacheControl env (dcc_subscription (defaultCacheControls this)))
                       (tw_cacheMetadata
                          (fst (resolveSubscription env ast (ex_data result)
                                  (createCacheMetadata env (ex_cacheMetadata result) None)
                                  (tag opts) context s))))"
    using subscriber_default_entry by blast
next
  assume c: "constructor env oid (PlainArgs a) = Inr made \<and> arg_defaultCacheControls a = None"
  then have "defaultCacheControls made = initialDefaultCacheControls"
    using constructor_defaults by blast
  then show "dcc_mutation (defaultCacheControls made) = ''max-age=0, s-maxage=0, no-cache, no-store''"
    and "dcc_subscription (defaultCacheControls made) = ''max-age=0, s-maxage=0, no-cache, no-store''"
    by (simp_all add: initialDefaultCacheControls_def)
qed

theorem default_query_entry_witness:
  "fst (fetch mutatingCollaborators (Some mutationText) (Some mutationAST) exampleOptions
          exampleContext emptyCache) =
     Inr \<lparr>fr_cacheMetadata = None,
          fr_data = Some (JObject [(''updateUser'', JObject [(''id'', JString ''1''),
                                                             (''name'', JString ''Grace'')])]),
          fr_headers = []\<rparr>
   \<and> fst (mutation mutatingCollaborators exampleClient mutationText mutationAST exampleOptions
            exampleContext emptyCache) =
      Resolves
         \<lparr>rr_cacheMetadata = Some [(''query'', ''max-age=0, s-maxage=0, no-cache, no-store'')],
          rr_cachePromise = Some (Fulfilled ()),
          rr_data = Some (JObject [(''updateUser'', JObject [(''id'', JString ''1''),
                                                             (''name'', JString ''Grace'')])]),
          rr_queryHash = None\<rparr>
   \<and> ex_errors exampleMessage = None
   \<and> fst (resolveSubscriber mutatingCollaborators exampleClient mutationAST
            (PlainObject exampleMessage) exampleOptions exampleContext emptyCache) =
      Resolves
         \<lparr>rr_cacheMetadata = Some [(''query'', ''max-age=0, s-maxage=0, no-cache, no-store'')],
          rr_cachePromise = None,
          rr_data = Some (JObject [(''userChanged'', JObject [(''id'', JString ''1'')])]),
          rr_queryHash = None\<rparr>
   \<and> constructor exampleCollaborators 0 (PlainArgs exampleArgs) = Inr exampleClient
   \<and> arg_defaultCacheControls exampleArgs = None
   \<and> dcc_mutation (defaultCacheControls exampleClient) = ''max-age=0, s-maxage=0, no-cache, no-store''
   \<and> dcc_subscription (defaultCacheControls exampleClient)
       = ''max-age=0, s-maxage=0, no-cache, no-store''"
proof -
  have e: "arg_defaultCacheControls exampleArgs = None"
    by (simp add: exampleArgs_def)
  have d: "dcc_mutation (defaultCacheControls exampleClient) = ''max-age=0, s-maxage=0, no-cache, no-store''
        \<and> dcc_subscription (defaultCacheControls exampleClient)
            = ''max-age=0, s-maxage=0, no-cache, no-store''"
    using default_query_entry [where env = exampleCollaborators and oid = 0 and a = exampleArgs
        and made = exampleClient] constructor_example e
    by blast
  have f: "fst (fetch mutatingCollaborators (Some mutationText) (Some mutationAST) exampleOptions
          exampleContext emptyCache) =
     Inr \<lparr>fr_cacheMetadata = None,
          fr_data = Some (JObject [(''updateUser'', JObject [(''id'', JString ''1''),
                                                             (''name'', JString ''Grace'')])]),
          fr_headers = []\<rparr>"
    by (simp add: fetch_def mutatingCollaborators_def exampleCollaborators_def)
  have m: "fst (mutation mutatingCollaborators exampleClient mutationText mutationAST exampleOptions
            exampleContext emptyCache) =
      Resolves
         \<lparr>rr_cacheMetadata = Some [(''query'', ''max-age=0, s-maxage=0, no-cache, no-store'')],
          rr_cachePromise = Some (Fulfilled ()),
          rr_data = Some (JObject [(''updateUser'', JObject [(''id'', JString ''1''),
                                                             (''name'', JString ''Grace'')])]),
          rr_queryHash = None\<rparr>"
    by (simp add: mutation_def fetch_def resolveMutation_def writeTiers_def resolve_def emit_def
      Let_def truthy_def defaultCacheControl_def deferredPromise_def mutatingCollaborators_def
      exampleCollaborators_def exampleClient_def exampleOptions_def exampleContext_def
      initialDefaultCacheControls_def emptyCache_def)
  have u: "fst (resolveSubscriber mutatingCollaborators exampleClient mutationAST
            (PlainObject exampleMessage) exampleOptions exampleContext emptyCache) =
      Resolves
         \<lparr>rr_cacheMetadata = Some [(''query'', ''max-age=0, s-maxage=0, no-cache, no-store'')],
          rr_cachePromise = None,
          rr_data = Some (JObject [(''userChanged'', JObject [(''id'', JString ''1'')])]),
          rr_queryHash = None\<rparr>"
    by (simp add: resolveSubscriber_def resolveSubscription_def writeTiers_def resolve_def emit_def
      Let_def truthy_def defaultCacheControl_def mutatingCollaborators_def exampleMessage_def
      exampleCollaborators_def exampleClient_def exampleOptions_def exampleContext_def
      initialDefaultCacheControls_def emptyCache_def)
  have x: "ex_errors exampleMessage = None"
    by (simp add: exampleMessage_def)
  from f m x u constructor_example e d show ?thesis by (intro conjI) simp_all
qed

text \<open>
  The claim as it is written gives the directive as \<^verbatim>\<open>max-age=0, no-cache, no-store\<close>;
  the constant of the source has \<^verbatim>\<open>s-maxage=0\<close> as well.
\<close>

theorem default_directive_counterexample:
  "constructor exampleCollaborators 0 (PlainArgs exampleArgs) = Inr exampleClient
   \<and> defaultCacheControl (defaultCacheControls exampleClient) OpMutation
       = ''max-age=0, s-maxage=0, no-cache, no-store''
   \<and> defaultCacheControl (defaultCacheControls exampleClient) OpSubscription
       = ''max-age=0, s-maxage=0, no-cache, no-store''
   \<and> defaultCacheControl (defaultCacheControls exampleClient) OpMutation
       \<noteq> ''max-age=0, no-cache, no-store''
   \<and> defaultCacheControl (defaultCacheControls exampleClient) OpSubscription
       \<noteq> ''max-age=0, no-cache, no-store''"
  by (simp add: constructor_example defaultCacheControl_def exampleClient_def
      initialDefaultCacheControls_def)

section \<open>More than one operation\<close>

text \<open>
  Claim C8, as the code has it. A request whose parsed document has more than one
  operation definition is rejected and the state is left as it was, so neither the
  executor nor a resolve of the cache manager is called. The rejection is the dedicated
  TypeError when the document passes validation; when validation reports errors, they
  are the rejection, since \<^verbatim>\<open>validate\<close> runs before the operations are counted.
\<close>

theorem multiple_operations_rejected:
  assumes "updateRequest env qry opts context = Inr upd"
    and "length (getOperationDefinitions (upd_ast upd)) > 1"
  shows "request' env this qry opts context s =
           (Rejects (case validate env (schema this) (upd_ast upd) of
                       [] \<Rightarrow> TypeError ''Request expected to process one operation, but got multiple.''
                     | e # es \<Rightarrow> ErrorList (e # es)), s)"
  using assms by (simp add: request'_def Let_def split: list.splits)

lemma named_fixture:
  "updateRequest namedCollaborators ''query A { a } query B { b }'' exampleOptions exampleContext
     = Inr namedUpdate"
  "1 < length (getOperationDefinitions (upd_ast namedUpdate))"
  "validate namedCollaborators (schema exampleClient) (upd_ast namedUpdate) = []"
  by (simp_all add: namedCollaborators_def exampleCollaborators_def namedUpdate_def
      getOperationDefinitions_def)

theorem multiple_operations_rejected_witness:
  "updateRequest namedCollaborators ''query A { a } query B { b }'' exampleOptions exampleContext
     = Inr namedUpdate
   \<and> 1 < length (getOperationDefinitions (upd_ast namedUpdate))
   \<and> request' namedCollaborators exampleClient ''query A { a } query B { b }'' exampleOptions
        exampleContext emptyCache =
      (Rejects (TypeError ''Request expected to process one operation, but got multiple.''),
       emptyCache)"
  using multiple_operations_rejected [OF named_fixture(1) named_fixture(2), of exampleClient emptyCache]
    named_fixture
  by simp

text \<open>
  The claim as it is written promises the dedicated error for every such document. Two
  anonymous operations are refused by validation, and its errors are what the request
  rejects with.
\<close>

theorem dedicated_error_counterexample:
  "length (getOperationDefinitions twoAnonymousAST) = 2
   \<and> request' anonymousCollaborators exampleClient ''{ a } { b }'' exampleOptions exampleContext
        emptyCache =
      (Rejects (ErrorList [Error ''This anonymous operation must be the only defined operation.'',
                           Error ''This anonymous operation must be the only defined operation.'']),
       emptyCache)
   \<and> ErrorList [Error ''This anonymous operation must be the only defined operation.'',
                 Error ''This anonymous operation must be the only defined operation.'']
      \<noteq> TypeError ''Request expected to process one operation, but got multiple.''"
  by (simp add: request'_def getOperationDefinitions_def
      anonymousCollaborators_def exampleCollaborators_def twoAnonymousAST_def)

section \<open>One client per module\<close>

text \<open>An introspection result the schema builder refuses: its error is the constructor's.\<close>

lemma constructor_refused:
  "constructor exampleCollaborators 0 (PlainArgs (exampleArgs\<lparr>arg_introspection := Some (JObject [])\<rparr>))
     = Inl (Error ''Invalid or incomplete introspection result.'')"
  by (simp add: constructor_def exampleCollaborators_def exampleArgs_def Let_def)

lemma create_existing:
  "moduleInstance g = Some inst \<Longrightarrow> \<not> arg_newInstance a
     \<Longrightarrow> create env (PlainArgs a) g = (Resolves inst, g)"
  by (simp add: create_def)

lemma create_resolves_instance:
  "create env args g = (Resolves client, g') \<Longrightarrow> moduleInstance g' = Some client"
  by (auto simp: create_def split: option.splits CreateArgs.splits if_splits sum.splits)

lemma create_fresh_only:
  "create env args g = (r, g') \<Longrightarrow> allocated g' \<noteq> allocated g
     \<Longrightarrow> moduleInstance g = None \<or> (\<exists>b. args = PlainArgs b \<and> arg_newInstance b)"
  by (auto simp: create_def constructor_def
      split: option.splits CreateArgs.splits if_splits sum.splits)

text \<open>
  Claim C9. After a call of \<^verbatim>\<open>create\<close> has resolved with a client, a call with a plain
  object whose \<^verbatim>\<open>newInstance\<close> is not set resolves with that same client and changes
  nothing, whatever the other fields of the arguments and whatever the collaborators.
  An object is made (the count \<open>allocated\<close> moves) only when there is no instance or the
  arguments are a plain object with \<^verbatim>\<open>newInstance\<close> set.
\<close>

theorem create_returns_instance:
  assumes "create env0 args0 g0 = (Resolves client, g)"
    and "\<not> arg_newInstance a"
  shows "create env (PlainArgs a) g = (Resolves client, g)
         \<and> (\<forall>g1 args r g'. create env args g1 = (r, g') \<and> allocated g' \<noteq> allocated g1
               \<longrightarrow> moduleInstance g1 = None \<or> (\<exists>b. args = PlainArgs b \<and> arg_newInstance b))"
proof -
  have "moduleInstance g = Some client"
    using assms(1) by (rule create_resolves_instance)
  then have a: "create env (PlainArgs a) g = (Resolves client, g)"
    using assms(2) by (rule create_existing)
  have b: "\<forall>g1 args r g'. create env args g1 = (r, g') \<and> allocated g' \<noteq> allocated g1
               \<longrightarrow> moduleInstance g1 = None \<or> (\<exists>b. args = PlainArgs b \<and> arg_newInstance b)"
    using create_fresh_only by blast
  from a b show ?thesis by (intro conjI)
qed

theorem create_returns_instance_witness:
  "create exampleCollaborators (PlainArgs exampleArgs) freshModule =
     (Resolves exampleClient, \<lparr>moduleInstance = Some exampleClient, allocated = 1\<rparr>)
   \<and> \<not> arg_newInstance otherArgs
   \<and> create mutatingCollaborators (PlainArgs otherArgs)
       \<lparr>moduleInstance = Some exampleClient, allocated = 1\<rparr> =
     (Resolves exampleClient, \<lparr>moduleInstance = Some exampleClient, allocated = 1\<rparr>)"
proof -
  have h1: "create exampleCollaborators (PlainArgs exampleArgs) freshModule =
     (Resolves exampleClient, \<lparr>moduleInstance = Some exampleClient, allocated = 1\<rparr>)"
    by (simp add: create_def freshModule_def constructor_example)
      (simp add: exampleCollaborators_def)
  have h2: "\<not> arg_newInstance otherArgs"
    by (simp add: otherArgs_def exampleArgs_def)
  show ?thesis
    using h1 h2 create_returns_instance [OF h1 h2, of mutatingCollaborators] by simp
qed

section \<open>Subscriptions that are not enabled\<close>

text \<open>
  Claim C10. When the single operation of the document is a subscription and the
  client has subscriptions disabled, the request is rejected with the error
  \<^verbatim>\<open>Request expected the operation to be 'query', 'mutation' or 'subscription'.\<close> and the
  state is left as it was: the subscriber is not called.
\<close>

theorem subscriptions_not_enabled:
  assumes "updateRequest env qry opts context = Inr upd"
    and "validate env (schema this) (upd_ast upd) = []"
    and "getOperationDefinitions (upd_ast upd) = [od]"
    and "od_operation od = ''subscription''"
    and "\<not> subscriptionsEnabled this"
  shows "request' env this qry opts context s =
           (Rejects (Error
              ''Request expected the operation to be 'query', 'mutation' or 'subscription'.''), s)
         \<and> resolveRequestOperation env this (upd_query upd) (upd_ast upd) opts
              (operationContext context od) s =
           (Rejects (Error
              ''Request expected the operation to be 'query', 'mutation' or 'subscription'.''), s)"
  using assms
  by (simp add: request'_single resolveRequestOperation_def operationContext_def returnResult_def)

lemma subscribing_fixture:
  "updateRequest subscribingCollaborators ''subscription { userChanged { id } }'' exampleOptions
     exampleContext = Inr subscriptionUpdate"
  "validate subscribingCollaborators (schema exampleClient) (upd_ast subscriptionUpdate) = []"
  "getOperationDefinitions (upd_ast subscriptionUpdate) = [subscriptionOD]"
  "od_operation subscriptionOD = ''subscription''"
  "\<not> subscriptionsEnabled exampleClient"
  by (simp_all add: subscribingCollaborators_def exampleCollaborators_def subscriptionUpdate_def
      subscriptionOD_def getOperationDefinitions_def exampleClient_def)

theorem subscriptions_not_enabled_witness:
  "updateRequest subscribingCollaborators ''subscription { userChanged { id } }'' exampleOptions
     exampleContext = Inr subscriptionUpdate
   \<and> validate subscribingCollaborators (schema exampleClient) (upd_ast subscriptionUpdate) = []
   \<and> getOperationDefinitions (upd_ast subscriptionUpdate) = [subscriptionOD]
   \<and> od_operation subscriptionOD = ''subscription''
   \<and> \<not> subscriptionsEnabled exampleClient
   \<and> constructor exampleCollaborators 0 (PlainArgs exampleArgs) = Inr exampleClient
   \<and> request' subscribingCollaborators exampleClient ''subscription { userChanged { id } }''
        exampleOptions exampleContext emptyCache =
      (Rejects (Error
         ''Request expected the operation to be 'query', 'mutation' or 'subscription'.''),
       emptyCache)"
  using subscriptions_not_enabled [OF subscribing_fixture(1) subscribing_fixture(2)
      subscribing_fixture(3) subscribing_fixture(4) subscribing_fixture(5), of emptyCache]
    subscribing_fixture constructor_example
  by simp

section \<open>The registries in reachable states\<close>

lemma wellFormed_cong:
  "pending s' = pending s \<Longrightarrow> promises s' = promises s \<Longrightarrow> wellFormed s' = wellFormed s"
  by (simp add: wellFormed_def)

lemma length_update_present:
  "map_of al k \<noteq> None \<Longrightarrow> length (AList.update k v al) = length al"
  by (induction al) auto

lemma wellFormed_settle_all:
  assumes "wellFormed (s :: ('c, 'd) CacheManager)"
    and "map_of (pending s) h = Some ps" and "v \<noteq> Pending"
  shows "wellFormed ((fold (\<lambda>p. settle p v) ps s)\<lparr>pending := AList.delete h (pending s)\<rparr>)"
proof -
  let ?s = "fold (\<lambda>p. settle p v) ps s"
  have len: "length (promises (fold (\<lambda>p. settle p v) qs t)) = length (promises t)"
    for qs and t :: "('c, 'd) CacheManager"
    by (induction qs arbitrary: t)
      (auto simp: settle_def length_update_present split: option.splits promise.splits)
  show ?thesis
    unfolding wellFormed_def
  proof (intro conjI allI impI)
    fix p assume "map_of (promises (?s\<lparr>pending := AList.delete h (pending s)\<rparr>)) p \<noteq> None"
    then have "map_of (promises s) p \<noteq> None"
      by (auto simp: map_of_fold_settle split: if_splits)
    with assms(1) show "p < length (promises (?s\<lparr>pending := AList.delete h (pending s)\<rparr>))"
      by (simp add: wellFormed_def len)
  next
    fix h' ps' p
    assume a: "map_of (pending (?s\<lparr>pending := AList.delete h (pending s)\<rparr>)) h' = Some ps'
               \<and> p \<in> set ps'"
    then have h': "h' \<noteq> h" and m: "map_of (pending s) h' = Some ps'" and p: "p \<in> set ps'"
      by (auto simp: delete_conv' split: if_splits)
    from assms(1,2) h' m have "set ps \<inter> set ps' = {}"
      unfolding wellFormed_def by blast
    with p have "p \<notin> set ps" by blast
    moreover from assms(1) m p have "map_of (promises s) p = Some Pending"
      unfolding wellFormed_def by blast
    ultimately show "map_of (promises (?s\<lparr>pending := AList.delete h (pending s)\<rparr>)) p = Some Pending"
      by (simp add: map_of_fold_settle)
  next
    fix h1 h2 ps1 ps2
    assume "map_of (pending (?s\<lparr>pending := AList.delete h (pending s)\<rparr>)) h1 = Some ps1
            \<and> map_of (pending (?s\<lparr>pending := AList.delete h (pending s)\<rparr>)) h2 = Some ps2
            \<and> h1 \<noteq> h2"
    then have "map_of (pending s) h1 = Some ps1" "map_of (pending s) h2 = Some ps2" "h1 \<noteq> h2"
      by (auto simp: delete_conv' split: if_splits)
    with assms(1) show "set ps1 \<inter> set ps2 = {}"
      unfolding wellFormed_def by blast
  qed
qed

lemma wellFormed_resolvePendingRequests:
  assumes "wellFormed s"
  shows "wellFormed (resolvePendingRequests h cm dat err s)"
proof (cases "map_of (pending s) h")
  case None
  then show ?thesis using assms by (simp add: resolvePendingRequests_def)
next
  case (Some ps)
  show ?thesis
  proof (cases err)
    case None
    then show ?thesis
      using wellFormed_settle_all [OF assms Some, of "Fulfilled \<lparr>rr_cacheMetadata = cm,
          rr_cachePromise = None, rr_data = dat, rr_queryHash = Some h\<rparr>"] Some
      by (simp add: resolvePendingRequests_def)
  next
    case (Some e)
    then show ?thesis
      using wellFormed_settle_all [OF assms \<open>map_of (pending s) h = Some ps\<close>, of "Rejected e"]
        \<open>map_of (pending s) h = Some ps\<close>
      by (simp add: resolvePendingRequests_def)
  qed
qed


lemma wellFormed_resolve:
  assumes "wellFormed s"
  shows "wellFormed (snd (resolve env this args s))"
proof -
  have "wellFormed ((resolvePendingRequests h cm dat err s)\<lparr>active := a\<rparr>)" for h cm dat err a
    using wellFormed_resolvePendingRequests [OF assms, of h cm dat err]
    by (simp add: wellFormed_def)
  then show ?thesis
    using assms by (simp add: resolve_def Let_def split: option.splits)
qed

lemma wellFormed_join:
  assumes "wellFormed s"
  shows "wellFormed (setPendingRequest h (fst (newPromise s)) (snd (newPromise s)))"
proof -
  let ?n = "length (promises s)"
  let ?old = "case map_of (pending s) h of None \<Rightarrow> [] | Some ps \<Rightarrow> ps"
  have fresh: "map_of (promises s) ?n = None"
    using assms unfolding wellFormed_def by (metis less_irrefl)
  have prom: "map_of (promises s @ [(?n, Pending)]) p =
                (if p = ?n then Some Pending else map_of (promises s) p)" for p
    using fresh by (auto simp: map_add_def split: option.splits)
  have notin: "?n \<notin> set ps" if "map_of (pending s) k = Some ps" for k ps
    using assms that fresh unfolding wellFormed_def by (metis option.distinct(1))
  show ?thesis
    unfolding wellFormed_def
  proof (intro conjI allI impI)
    fix p
    assume "map_of (promises (setPendingRequest h (fst (newPromise s)) (snd (newPromise s)))) p \<noteq> None"
    then have "p = ?n \<or> map_of (promises s) p \<noteq> None"
      by (auto simp: setPendingRequest_def newPromise_def Let_def prom simp del: map_of_append
          split: if_splits)
    with assms
    show "p < length (promises (setPendingRequest h (fst (newPromise s)) (snd (newPromise s))))"
      unfolding wellFormed_def
      by (auto simp: setPendingRequest_def newPromise_def Let_def less_Suc_eq)
  next
    fix k ps p
    assume a: "map_of (pending (setPendingRequest h (fst (newPromise s)) (snd (newPromise s)))) k
                 = Some ps \<and> p \<in> set ps"
    then have "(k = h \<and> ps = ?old @ [?n]) \<or> (k \<noteq> h \<and> map_of (pending s) k = Some ps)"
      by (auto simp: setPendingRequest_def newPromise_def Let_def update_conv' split: if_splits)
    then have "p = ?n \<or> (\<exists>k' ps'. map_of (pending s) k' = Some ps' \<and> p \<in> set ps')"
      using a by (auto split: option.splits)
    then have "map_of (promises s @ [(?n, Pending)]) p = Some Pending"
      using assms unfolding wellFormed_def by (auto simp: prom simp del: map_of_append)
    then show "map_of (promises (setPendingRequest h (fst (newPromise s)) (snd (newPromise s)))) p
                 = Some Pending"
      by (simp add: setPendingRequest_def newPromise_def Let_def)
  next
    fix k1 k2 ps1 ps2
    assume a: "map_of (pending (setPendingRequest h (fst (newPromise s)) (snd (newPromise s)))) k1
                 = Some ps1
               \<and> map_of (pending (setPendingRequest h (fst (newPromise s)) (snd (newPromise s)))) k2
                 = Some ps2
               \<and> k1 \<noteq> k2"
    then have c1: "(k1 = h \<and> ps1 = ?old @ [?n]) \<or> (k1 \<noteq> h \<and> map_of (pending s) k1 = Some ps1)"
      and c2: "(k2 = h \<and> ps2 = ?old @ [?n]) \<or> (k2 \<noteq> h \<and> map_of (pending s) k2 = Some ps2)"
      and ne: "k1 \<noteq> k2"
      by (auto simp: setPendingRequest_def newPromise_def Let_def update_conv' split: if_splits)
    have old: "set ?old \<inter> set ps = {}" if "k \<noteq> h" "map_of (pending s) k = Some ps" for k ps
    proof (cases "map_of (pending s) h")
      case None
      then show ?thesis by simp
    next
      case (Some qs)
      with assms that have "set qs \<inter> set ps = {}"
        unfolding wellFormed_def by blast
      with Some show ?thesis by simp
    qed
    from c1 c2 ne show "set ps1 \<inter> set ps2 = {}"
    proof (elim disjE conjE)
      assume "k1 = h" "k2 = h"
      with ne show ?thesis by simp
    next
      assume "k1 = h" "ps1 = ?old @ [?n]" "k2 \<noteq> h" "map_of (pending s) k2 = Some ps2"
      then show ?thesis using old [of k2 ps2] notin [of k2 ps2] by auto
    next
      assume "k1 \<noteq> h" "map_of (pending s) k1 = Some ps1" "k2 = h" "ps2 = ?old @ [?n]"
      then show ?thesis using old [of k1 ps1] notin [of k1 ps1] by auto
    next
      assume "k1 \<noteq> h" "map_of (pending s) k1 = Some ps1" "k2 \<noteq> h" "map_of (pending s) k2 = Some ps2"
      with assms ne show ?thesis unfolding wellFormed_def by blast
    qed
  qed
qed


lemma wellFormed_unchanged:
  "wellFormed s \<Longrightarrow> pending s' = pending s \<Longrightarrow> promises s' = promises s \<Longrightarrow> wellFormed s'"
  by (simp add: wellFormed_def)

lemma registry_fields [simp]:
  "pending (snd (responsesSet env key val cc tg s)) = pending s"
  "promises (snd (responsesSet env key val cc tg s)) = promises s"
  "pending (snd (resolveMutation env ast dat cm tg context s)) = pending s"
  "promises (snd (resolveMutation env ast dat cm tg context s)) = promises s"
  "pending (snd (resolveSubscription env ast dat cm tg context s)) = pending s"
  "promises (snd (resolveSubscription env ast dat cm tg context s)) = promises s"
  "pending (snd (resolveQuery env dcc qry oast h dat cm filt tg context s)) = pending s"
  "promises (snd (resolveQuery env dcc qry oast h dat cm filt tg context s)) = promises s"
  by (simp_all add: writeTiers_def responsesSet_def resolveMutation_def resolveSubscription_def
      resolveQuery_def Let_def split: option.splits)

lemma wellFormed_mutation:
  assumes "wellFormed s"
  shows "wellFormed (snd (mutation env this mut ast opts context s))"
proof -
  have f: "wellFormed (snd (fetch env (Some mut) (Some ast) opts context s))"
    using assms by (rule wellFormed_unchanged) simp_all
  have m: "wellFormed (snd (resolveMutation env ast dat cm tg context
                               (snd (fetch env (Some mut) (Some ast) opts context s))))"
    for dat cm tg
    using f by (rule wellFormed_unchanged) simp_all
  show ?thesis
    using f m
    by (simp add: mutation_def Let_def case_prod_beta wellFormed_resolve split: sum.splits prod.splits)
qed

lemma wellFormed_queryFetched:
  assumes "wellFormed s"
  shows "wellFormed (snd (queryFetched env this h uq ua filt opts context fetched s))"
proof -
  have m: "wellFormed (snd (resolveQuery env dcc uq ua h dat cm filt tg context s))" for dcc dat cm tg
    using assms by (rule wellFormed_unchanged) simp_all
  show ?thesis
    using assms m
    by (simp add: queryFetched_def Let_def case_prod_beta wellFormed_resolve split: sum.splits)
qed

lemma wellFormed_queryBegin:
  assumes "wellFormed s"
  shows "wellFormed (snd (queryBegin env this qry ast opts context s))"
proof -
  let ?h = "hashRequest env qry"
  let ?s1 = "snd (checkResponseCache env ?h context s)"
  have s1: "wellFormed ?s1"
    using assms by (rule wellFormed_unchanged) simp_all
  have j: "wellFormed (setPendingRequest ?h (fst (newPromise ?s1)) (snd (newPromise ?s1)))"
    using s1 by (rule wellFormed_join)
  have a: "wellFormed (snd (responsesSet env ?h val cc tg
                              (emit ev (?s1\<lparr>active := act\<rparr>))))" for val cc tg ev act
    using s1 by (rule wellFormed_unchanged) simp_all
  have b: "wellFormed (emit ev (?s1\<lparr>active := act\<rparr>))" for ev act
    using s1 by (rule wellFormed_unchanged) simp_all
  show ?thesis
    using s1 j a b
    by (simp add: queryBegin_def Let_def case_prod_beta wellFormed_resolve
        split: option.splits prod.splits)
qed

lemma wellFormed_query:
  assumes "wellFormed s"
  shows "wellFormed (snd (query env this qry ast opts context s))"
proof -
  have b: "wellFormed (snd (queryBegin env this qry ast opts context s))"
    using assms by (rule wellFormed_queryBegin)
  have f: "wellFormed (snd (fetch env uq ua opts context
                              (snd (queryBegin env this qry ast opts context s))))" for uq ua
    using b by (rule wellFormed_unchanged) simp_all
  obtain st s1 where q: "queryBegin env this qry ast opts context s = (st, s1)"
    by (cases "queryBegin env this qry ast opts context s")
  show ?thesis
  proof (cases st)
    case (Done r)
    with q b show ?thesis by (simp add: query_def)
  next
    case (Fetching h uq ua filt)
    with q f [of uq ua] show ?thesis
      by (simp add: query_def Let_def case_prod_beta wellFormed_queryFetched)
  qed
qed

lemma wellFormed_resolveSubscriber:
  assumes "wellFormed s"
  shows "wellFormed (snd (resolveSubscriber env this ast msg opts context s))"
proof -
  have m: "wellFormed (snd (resolveSubscription env ast dat cm tg context s))" for dat cm tg
    using assms by (rule wellFormed_unchanged) simp_all
  have e: "wellFormed (emit ev (snd (resolveSubscription env ast dat cm tg context s)))"
    for ev dat cm tg
    using m by (rule wellFormed_unchanged) simp_all
  show ?thesis
    using assms m e
    by (simp add: resolveSubscriber_def Let_def case_prod_beta wellFormed_resolve
        split: Message.splits option.splits list.splits)
qed

lemma wellFormed_subscription:
  assumes "wellFormed s"
  shows "wellFormed (snd (subscription env this sub ast opts context s))"
proof -
  have e: "wellFormed (emit ev s)" for ev
    using assms by (rule wellFormed_unchanged) simp_all
  show ?thesis
    using e
    by (simp add: subscription_def Let_def case_prod_beta wellFormed_resolve
        wellFormed_resolveSubscriber split: sum.splits SubscribeResult.splits option.splits)
qed

lemma wellFormed_request':
  assumes "wellFormed (s :: ('c, 'd) CacheManager)"
  shows "wellFormed (snd (request' env this qry opts context s))"
proof -
  have o: "wellFormed (snd (resolveRequestOperation env this q ast opts c s))" for q ast c
    using assms
    by (simp add: resolveRequestOperation_def case_prod_beta wellFormed_query wellFormed_mutation
        wellFormed_subscription)
  have r: "wellFormed (snd (returnResult opts result t))" if "wellFormed t"
    for result :: "'c RequestResult async" and t :: "('c, 'd) CacheManager"
    using that by (rule wellFormed_unchanged) simp_all
  have ro: "wellFormed (snd (returnResult opts result
                               (snd (resolveRequestOperation env this q ast opts c s))))"
    for result q ast c
    using o by (rule r)
  show ?thesis
    using assms ro
    by (simp add: request'_def Let_def case_prod_beta split: sum.splits list.splits)
qed


lemma reachable_wellFormed:
  "reachable s \<Longrightarrow> wellFormed s"
proof (induction rule: reachable.induct)
  case (initial s)
  then show ?case by (simp add: wellFormed_def)
next
  case (begun s env this qry ast opts ctx)
  then show ?case by (simp add: wellFormed_queryBegin)
next
  case (fetching s env req oast opts ctx)
  then show ?case by (auto intro: wellFormed_unchanged)
next
  case (fetched s env this h req oast filt opts ctx outcome)
  then show ?case by (simp add: wellFormed_queryFetched)
next
  case (requested s env this qry opts ctx)
  then show ?case by (simp add: wellFormed_request')
next
  case (message s env this ast msg opts ctx)
  then show ?case by (simp add: wellFormed_resolveSubscriber)
qed

lemma reachable_pending:
  assumes "reachable s" and "map_of (pending s) h = Some callers"
  shows "\<forall>p\<in>set callers. map_of (promises s) p = Some Pending"
  using reachable_wellFormed [OF assms(1)] assms(2) unfolding wellFormed_def by blast

section \<open>Draining the registries on an executor error\<close>

text \<open>
  Claim C1. A query with fingerprint \<open>queryHash\<close> is in flight and callers have
  joined its pending list. When its fetch completes with the executor's error \<open>e\<close>,
  the request itself is rejected with \<open>e\<close>, the promise of every pending caller is
  rejected with \<open>e\<close>, and afterwards neither the active registry nor the pending
  registry has an entry for \<open>queryHash\<close>. The state is any reachable one, and the
  fingerprint is not the empty string.
\<close>

theorem error_draining:
  assumes "queryHash \<noteq> []"
    and "map_of (pending s) queryHash = Some callers"
    and "reachable s"
    and "fst (fetch env updQuery updAST opts context s0) = Inl e"
  shows "case queryFetched env this queryHash updQuery updAST filt opts context
                (fst (fetch env updQuery updAST opts context s0)) s of
           (r, s') \<Rightarrow>
             r = Rejects e
             \<and> (\<forall>p\<in>set callers. map_of (promises s') p = Some (Rejected e))
             \<and> map_of (active s') queryHash = None
             \<and> map_of (pending s') queryHash = None"
  using assms reachable_pending [OF assms(3,2)]
  by (simp add: queryFetched_def resolve_def truthy_def resolvePendingRequests_error
      delete_conv')

text \<open>
  The state \<open>drainingCache\<close> is the one reached when a first caller starts the query and
  two more callers ask for the same query while the executor is at work.
\<close>

lemma drainingCache_reached:
  "snd (queryBegin exampleCollaborators exampleClient ''{ user { id name } }'' exampleAST
          exampleOptions exampleContext
       (snd (queryBegin exampleCollaborators exampleClient ''{ user { id name } }'' exampleAST
               exampleOptions exampleContext
            (snd (fetch exampleCollaborators (Some ''{ user { id name } }'') (Some exampleAST)
                    exampleOptions exampleContext
                 (snd (queryBegin exampleCollaborators exampleClient ''{ user { id name } }''
                         exampleAST exampleOptions exampleContext emptyCache)))))))
   = drainingCache"
  by (simp add: queryBegin_def checkResponseCache_def fetch_def emit_def exampleCollaborators_def
      exampleClient_def exampleOptions_def exampleContext_def emptyCache_def newPromise_def
      setPendingRequest_def drainingCache_def exampleAST_def Let_def)

lemma drainingCache_reachable:
  "reachable drainingCache"
proof -
  have "reachable (emptyCache :: (string, (string \<times> string) list) CacheManager)"
    by (rule reachable.initial) (simp_all add: emptyCache_def)
  then have "reachable
      (snd (queryBegin exampleCollaborators exampleClient ''{ user { id name } }'' exampleAST
          exampleOptions exampleContext
       (snd (queryBegin exampleCollaborators exampleClient ''{ user { id name } }'' exampleAST
               exampleOptions exampleContext
            (snd (fetch exampleCollaborators (Some ''{ user { id name } }'') (Some exampleAST)
                    exampleOptions exampleContext
                 (snd (queryBegin exampleCollaborators exampleClient ''{ user { id name } }''
                         exampleAST exampleOptions exampleContext emptyCache))))))))"
    by (intro reachable.begun reachable.fetching)
  then show ?thesis by (simp only: drainingCache_reached)
qed

theorem error_draining_witness:
  "''#{ user { id name } }'' \<noteq> []
   \<and> map_of (pending drainingCache) ''#{ user { id name } }'' = Some [0, 1]
   \<and> reachable drainingCache
   \<and> fst (fetch exampleCollaborators (Some ''{ user { id name } }'') (Some exampleAST) exampleOptions
             exampleContext emptyCache) = Inl (Error ''Failed to fetch'')
   \<and> (case queryFetched exampleCollaborators exampleClient ''#{ user { id name } }''
              (Some ''{ user { id name } }'') (Some exampleAST) (Some False) exampleOptions exampleContext
              (fst (fetch exampleCollaborators (Some ''{ user { id name } }'') (Some exampleAST) exampleOptions
                      exampleContext emptyCache)) drainingCache of
         (r, s') \<Rightarrow>
           r = Rejects (Error ''Failed to fetch'')
           \<and> map_of (promises s') 0 = Some (Rejected (Error ''Failed to fetch''))
           \<and> map_of (promises s') 1 = Some (Rejected (Error ''Failed to fetch''))
           \<and> map_of (active s') ''#{ user { id name } }'' = None
           \<and> map_of (pending s') ''#{ user { id name } }'' = None)"
proof -
  have h1: "''#{ user { id name } }'' \<noteq> []" by simp
  have h2: "map_of (pending drainingCache) ''#{ user { id name } }'' = Some [0, 1]"
    by (simp add: drainingCache_def)
  note h3 = drainingCache_reachable
  have h4: "fst (fetch exampleCollaborators (Some ''{ user { id name } }'') (Some exampleAST) exampleOptions
              exampleContext emptyCache) = Inl (Error ''Failed to fetch'')"
    by (simp add: fetch_def exampleCollaborators_def)
  show ?thesis
    using h1 h2 h3 h4 error_draining [OF h1 h2 h3 h4, of exampleClient "Some False"]
    by (auto split: prod.splits)
qed

end
